theory Spec2Isabelle
  imports Main "HOL-Library.Sublist"
begin

section \<open>Python strings\<close>

text \<open>
  A Python \<open>str\<close> is a sequence of Unicode code points, and \<open>len\<close> counts code points, so a
  string is a list of integers (the values of \<open>ord\<close>) here. \<open>ustr\<close> turns an ASCII literal
  into such a list. The character classes are those of CPython 3.11, whose tables follow
  Unicode 14.0: \<open>str.isspace\<close>, \<open>str.isdigit\<close>, the pattern \<open>\d\<close>, and the case mappings
  of \<open>str.lower\<close> and \<open>str.upper\<close>, which may replace one code point by several.
\<close>

type_synonym pystr = "int list"

definition ustr :: "string \<Rightarrow> pystr" where
  "ustr s = map of_char s"

definition isspace_char :: "int \<Rightarrow> bool" where
  "isspace_char c \<longleftrightarrow>
     (9 \<le> c \<and> c \<le> 13) \<or> (28 \<le> c \<and> c \<le> 32) \<or> c = 133 \<or> c = 160 \<or> c = 5760 \<or>
     (8192 \<le> c \<and> c \<le> 8202) \<or> c = 8232 \<or> c = 8233 \<or> c = 8239 \<or> c = 8287 \<or> c = 12288"

text \<open>The same code points one by one.\<close>

definition whitespace_chars :: "int list" where
  "whitespace_chars =
     [9, 10, 11, 12, 13, 28, 29, 30, 31, 32, 133, 160, 5760, 8192, 8193, 8194, 8195, 8196,
      8197, 8198, 8199, 8200, 8201, 8202, 8232, 8233, 8239, 8287, 12288]"

definition in_ranges :: "int \<Rightarrow> (int \<times> int) list \<Rightarrow> bool" where
  "in_ranges c rs = list_ex (\<lambda>(lo, hi). lo \<le> c \<and> c \<le> hi) rs"

text \<open>
  \<open>str.isdigit\<close> accepts the code points of numeric type digit or decimal: the decimal
  digits of every script and also superscripts, circled digits and the like.
\<close>

definition digit_ranges :: "(int \<times> int) list" where
  "digit_ranges =
     [(48, 57), (178, 179), (185, 185), (1632, 1641), (1776, 1785), (1984, 1993), (2406, 2415),
      (2534, 2543), (2662, 2671), (2790, 2799), (2918, 2927), (3046, 3055), (3174, 3183),
      (3302, 3311), (3430, 3439), (3558, 3567), (3664, 3673), (3792, 3801), (3872, 3881),
      (4160, 4169), (4240, 4249), (4969, 4977), (6112, 6121), (6160, 6169), (6470, 6479),
      (6608, 6618), (6784, 6793), (6800, 6809), (6992, 7001), (7088, 7097), (7232, 7241),
      (7248, 7257), (8304, 8304), (8308, 8313), (8320, 8329), (9312, 9320), (9332, 9340),
      (9352, 9360), (9450, 9450), (9461, 9469), (9471, 9471), (10102, 10110), (10112, 10120),
      (10122, 10130), (42528, 42537), (43216, 43225), (43264, 43273), (43472, 43481),
      (43504, 43513), (43600, 43609), (44016, 44025), (65296, 65305), (66720, 66729),
      (68160, 68163), (68912, 68921), (69216, 69224), (69714, 69722), (69734, 69743),
      (69872, 69881), (69942, 69951), (70096, 70105), (70384, 70393), (70736, 70745),
      (70864, 70873), (71248, 71257), (71360, 71369), (71472, 71481), (71904, 71913),
      (72016, 72025), (72784, 72793), (73040, 73049), (73120, 73129), (92768, 92777),
      (92864, 92873), (93008, 93017), (120782, 120831), (123200, 123209), (123632, 123641),
      (125264, 125273), (127232, 127242), (130032, 130041)]"

definition isdigit_char :: "int \<Rightarrow> bool" where
  "isdigit_char c \<longleftrightarrow> in_ranges c digit_ranges"

text \<open>The pattern \<open>\d\<close> matches the decimal digits (category Nd) only.\<close>

definition decimal_ranges :: "(int \<times> int) list" where
  "decimal_ranges =
     [(48, 57), (1632, 1641), (1776, 1785), (1984, 1993), (2406, 2415), (2534, 2543),
      (2662, 2671), (2790, 2799), (2918, 2927), (3046, 3055), (3174, 3183), (3302, 3311),
      (3430, 3439), (3558, 3567), (3664, 3673), (3792, 3801), (3872, 3881), (4160, 4169),
      (4240, 4249), (6112, 6121), (6160, 6169), (6470, 6479), (6608, 6617), (6784, 6793),
      (6800, 6809), (6992, 7001), (7088, 7097), (7232, 7241), (7248, 7257), (42528, 42537),
      (43216, 43225), (43264, 43273), (43472, 43481), (43504, 43513), (43600, 43609),
      (44016, 44025), (65296, 65305), (66720, 66729), (68912, 68921), (69734, 69743),
      (69872, 69881), (69942, 69951), (70096, 70105), (70384, 70393), (70736, 70745),
      (70864, 70873), (71248, 71257), (71360, 71369), (71472, 71481), (71904, 71913),
      (72016, 72025), (72784, 72793), (73040, 73049), (73120, 73129), (92768, 92777),
      (92864, 92873), (93008, 93017), (120782, 120831), (123200, 123209), (123632, 123641),
      (125264, 125273), (130032, 130041)]"

definition isdecimal_char :: "int \<Rightarrow> bool" where
  "isdecimal_char c \<longleftrightarrow> in_ranges c decimal_ranges"

text \<open>
  The case mappings beyond ASCII. A rule \<open>(lo, hi, step, d)\<close> maps every \<open>step\<close>-th code
  point from \<open>lo\<close> to \<open>hi\<close> to the code point \<open>d\<close> further on; the special entries are
  the code points that map to several; every other code point maps to itself.
\<close>

definition case_map ::
    "(int \<times> int list) list \<Rightarrow> (int \<times> int \<times> int \<times> int) list \<Rightarrow> int \<Rightarrow> int list" where
  "case_map special rules c =
     (case map_of special c of
        Some m \<Rightarrow> m
      | None \<Rightarrow>
          (case find (\<lambda>(lo, hi, step, d). lo \<le> c \<and> c \<le> hi \<and> (c - lo) mod step = 0) rules of
             Some (lo, hi, step, d) \<Rightarrow> [c + d]
           | None \<Rightarrow> [c]))"

definition lower_special :: "(int \<times> int list) list" where
  "lower_special =
     [(304, [105, 775])]"

definition lower_rules :: "(int \<times> int \<times> int \<times> int) list" where
  "lower_rules =
     [(192, 214, 1, 32), (216, 222, 1, 32), (256, 302, 2, 1), (306, 310, 2, 1),
      (313, 327, 2, 1), (330, 374, 2, 1), (376, 376, 1, - 121), (377, 381, 2, 1),
      (385, 385, 1, 210), (386, 388, 2, 1), (390, 390, 1, 206), (391, 391, 1, 1),
      (393, 394, 1, 205), (395, 395, 1, 1), (398, 398, 1, 79), (399, 399, 1, 202),
      (400, 400, 1, 203), (401, 401, 1, 1), (403, 403, 1, 205), (404, 404, 1, 207),
      (406, 406, 1, 211), (407, 407, 1, 209), (408, 408, 1, 1), (412, 412, 1, 211),
      (413, 413, 1, 213), (415, 415, 1, 214), (416, 420, 2, 1), (422, 422, 1, 218),
      (423, 423, 1, 1), (425, 425, 1, 218), (428, 428, 1, 1), (430, 430, 1, 218),
      (431, 431, 1, 1), (433, 434, 1, 217), (435, 437, 2, 1), (439, 439, 1, 219),
      (440, 440, 1, 1), (444, 444, 1, 1), (452, 452, 1, 2), (453, 453, 1, 1), (455, 455, 1, 2),
      (456, 456, 1, 1), (458, 458, 1, 2), (459, 475, 2, 1), (478, 494, 2, 1), (497, 497, 1, 2),
      (498, 500, 2, 1), (502, 502, 1, - 97), (503, 503, 1, - 56), (504, 542, 2, 1),
      (544, 544, 1, - 130), (546, 562, 2, 1), (570, 570, 1, 10795), (571, 571, 1, 1),
      (573, 573, 1, - 163), (574, 574, 1, 10792), (577, 577, 1, 1), (579, 579, 1, - 195),
      (580, 580, 1, 69), (581, 581, 1, 71), (582, 590, 2, 1), (880, 882, 2, 1),
      (886, 886, 1, 1), (895, 895, 1, 116), (902, 902, 1, 38), (904, 906, 1, 37),
      (908, 908, 1, 64), (910, 911, 1, 63), (913, 929, 1, 32), (931, 939, 1, 32),
      (975, 975, 1, 8), (984, 1006, 2, 1), (1012, 1012, 1, - 60), (1015, 1015, 1, 1),
      (1017, 1017, 1, - 7), (1018, 1018, 1, 1), (1021, 1023, 1, - 130), (1024, 1039, 1, 80),
      (1040, 1071, 1, 32), (1120, 1152, 2, 1), (1162, 1214, 2, 1), (1216, 1216, 1, 15),
      (1217, 1229, 2, 1), (1232, 1326, 2, 1), (1329, 1366, 1, 48), (4256, 4293, 1, 7264),
      (4295, 4295, 1, 7264), (4301, 4301, 1, 7264), (5024, 5103, 1, 38864), (5104, 5109, 1, 8),
      (7312, 7354, 1, - 3008), (7357, 7359, 1, - 3008), (7680, 7828, 2, 1),
      (7838, 7838, 1, - 7615), (7840, 7934, 2, 1), (7944, 7951, 1, - 8), (7960, 7965, 1, - 8),
      (7976, 7983, 1, - 8), (7992, 7999, 1, - 8), (8008, 8013, 1, - 8), (8025, 8031, 2, - 8),
      (8040, 8047, 1, - 8), (8072, 8079, 1, - 8), (8088, 8095, 1, - 8), (8104, 8111, 1, - 8),
      (8120, 8121, 1, - 8), (8122, 8123, 1, - 74), (8124, 8124, 1, - 9), (8136, 8139, 1, - 86),
      (8140, 8140, 1, - 9), (8152, 8153, 1, - 8), (8154, 8155, 1, - 100), (8168, 8169, 1, - 8),
      (8170, 8171, 1, - 112), (8172, 8172, 1, - 7), (8184, 8185, 1, - 128),
      (8186, 8187, 1, - 126), (8188, 8188, 1, - 9), (8486, 8486, 1, - 7517),
      (8490, 8490, 1, - 8383), (8491, 8491, 1, - 8262), (8498, 8498, 1, 28),
      (8544, 8559, 1, 16), (8579, 8579, 1, 1), (9398, 9423, 1, 26), (11264, 11311, 1, 48),
      (11360, 11360, 1, 1), (11362, 11362, 1, - 10743), (11363, 11363, 1, - 3814),
      (11364, 11364, 1, - 10727), (11367, 11371, 2, 1), (11373, 11373, 1, - 10780),
      (11374, 11374, 1, - 10749), (11375, 11375, 1, - 10783), (11376, 11376, 1, - 10782),
      (11378, 11378, 1, 1), (11381, 11381, 1, 1), (11390, 11391, 1, - 10815),
      (11392, 11490, 2, 1), (11499, 11501, 2, 1), (11506, 11506, 1, 1), (42560, 42604, 2, 1),
      (42624, 42650, 2, 1), (42786, 42798, 2, 1), (42802, 42862, 2, 1), (42873, 42875, 2, 1),
      (42877, 42877, 1, - 35332), (42878, 42886, 2, 1), (42891, 42891, 1, 1),
      (42893, 42893, 1, - 42280), (42896, 42898, 2, 1), (42902, 42920, 2, 1),
      (42922, 42922, 1, - 42308), (42923, 42923, 1, - 42319), (42924, 42924, 1, - 42315),
      (42925, 42925, 1, - 42305), (42926, 42926, 1, - 42308), (42928, 42928, 1, - 42258),
      (42929, 42929, 1, - 42282), (42930, 42930, 1, - 42261), (42931, 42931, 1, 928),
      (42932, 42946, 2, 1), (42948, 42948, 1, - 48), (42949, 42949, 1, - 42307),
      (42950, 42950, 1, - 35384), (42951, 42953, 2, 1), (42960, 42960, 1, 1),
      (42966, 42968, 2, 1), (42997, 42997, 1, 1), (65313, 65338, 1, 32), (66560, 66599, 1, 40),
      (66736, 66771, 1, 40), (66928, 66938, 1, 39), (66940, 66954, 1, 39),
      (66956, 66962, 1, 39), (66964, 66965, 1, 39), (68736, 68786, 1, 64),
      (71840, 71871, 1, 32), (93760, 93791, 1, 32), (125184, 125217, 1, 34)]"

definition upper_special :: "(int \<times> int list) list" where
  "upper_special =
     [(223, [83, 83]), (329, [700, 78]), (496, [74, 780]), (912, [921, 776, 769]),
      (944, [933, 776, 769]), (1415, [1333, 1362]), (7830, [72, 817]), (7831, [84, 776]),
      (7832, [87, 778]), (7833, [89, 778]), (7834, [65, 702]), (8016, [933, 787]),
      (8018, [933, 787, 768]), (8020, [933, 787, 769]), (8022, [933, 787, 834]),
      (8064, [7944, 921]), (8065, [7945, 921]), (8066, [7946, 921]), (8067, [7947, 921]),
      (8068, [7948, 921]), (8069, [7949, 921]), (8070, [7950, 921]), (8071, [7951, 921]),
      (8072, [7944, 921]), (8073, [7945, 921]), (8074, [7946, 921]), (8075, [7947, 921]),
      (8076, [7948, 921]), (8077, [7949, 921]), (8078, [7950, 921]), (8079, [7951, 921]),
      (8080, [7976, 921]), (8081, [7977, 921]), (8082, [7978, 921]), (8083, [7979, 921]),
      (8084, [7980, 921]), (8085, [7981, 921]), (8086, [7982, 921]), (8087, [7983, 921]),
      (8088, [7976, 921]), (8089, [7977, 921]), (8090, [7978, 921]), (8091, [7979, 921]),
      (8092, [7980, 921]), (8093, [7981, 921]), (8094, [7982, 921]), (8095, [7983, 921]),
      (8096, [8040, 921]), (8097, [8041, 921]), (8098, [8042, 921]), (8099, [8043, 921]),
      (8100, [8044, 921]), (8101, [8045, 921]), (8102, [8046, 921]), (8103, [8047, 921]),
      (8104, [8040, 921]), (8105, [8041, 921]), (8106, [8042, 921]), (8107, [8043, 921]),
      (8108, [8044, 921]), (8109, [8045, 921]), (8110, [8046, 921]), (8111, [8047, 921]),
      (8114, [8122, 921]), (8115, [913, 921]), (8116, [902, 921]), (8118, [913, 834]),
      (8119, [913, 834, 921]), (8124, [913, 921]), (8130, [8138, 921]), (8131, [919, 921]),
      (8132, [905, 921]), (8134, [919, 834]), (8135, [919, 834, 921]), (8140, [919, 921]),
      (8146, [921, 776, 768]), (8147, [921, 776, 769]), (8150, [921, 834]),
      (8151, [921, 776, 834]), (8162, [933, 776, 768]), (8163, [933, 776, 769]),
      (8164, [929, 787]), (8166, [933, 834]), (8167, [933, 776, 834]), (8178, [8186, 921]),
      (8179, [937, 921]), (8180, [911, 921]), (8182, [937, 834]), (8183, [937, 834, 921]),
      (8188, [937, 921]), (64256, [70, 70]), (64257, [70, 73]), (64258, [70, 76]),
      (64259, [70, 70, 73]), (64260, [70, 70, 76]), (64261, [83, 84]), (64262, [83, 84]),
      (64275, [1348, 1350]), (64276, [1348, 1333]), (64277, [1348, 1339]),
      (64278, [1358, 1350]), (64279, [1348, 1341])]"

definition upper_rules :: "(int \<times> int \<times> int \<times> int) list" where
  "upper_rules =
     [(181, 181, 1, 743), (224, 246, 1, - 32), (248, 254, 1, - 32), (255, 255, 1, 121),
      (257, 303, 2, - 1), (305, 305, 1, - 232), (307, 311, 2, - 1), (314, 328, 2, - 1),
      (331, 375, 2, - 1), (378, 382, 2, - 1), (383, 383, 1, - 300), (384, 384, 1, 195),
      (387, 389, 2, - 1), (392, 392, 1, - 1), (396, 396, 1, - 1), (402, 402, 1, - 1),
      (405, 405, 1, 97), (409, 409, 1, - 1), (410, 410, 1, 163), (414, 414, 1, 130),
      (417, 421, 2, - 1), (424, 424, 1, - 1), (429, 429, 1, - 1), (432, 432, 1, - 1),
      (436, 438, 2, - 1), (441, 441, 1, - 1), (445, 445, 1, - 1), (447, 447, 1, 56),
      (453, 453, 1, - 1), (454, 454, 1, - 2), (456, 456, 1, - 1), (457, 457, 1, - 2),
      (459, 459, 1, - 1), (460, 460, 1, - 2), (462, 476, 2, - 1), (477, 477, 1, - 79),
      (479, 495, 2, - 1), (498, 498, 1, - 1), (499, 499, 1, - 2), (501, 501, 1, - 1),
      (505, 543, 2, - 1), (547, 563, 2, - 1), (572, 572, 1, - 1), (575, 576, 1, 10815),
      (578, 578, 1, - 1), (583, 591, 2, - 1), (592, 592, 1, 10783), (593, 593, 1, 10780),
      (594, 594, 1, 10782), (595, 595, 1, - 210), (596, 596, 1, - 206), (598, 599, 1, - 205),
      (601, 601, 1, - 202), (603, 603, 1, - 203), (604, 604, 1, 42319), (608, 608, 1, - 205),
      (609, 609, 1, 42315), (611, 611, 1, - 207), (613, 613, 1, 42280), (614, 614, 1, 42308),
      (616, 616, 1, - 209), (617, 617, 1, - 211), (618, 618, 1, 42308), (619, 619, 1, 10743),
      (620, 620, 1, 42305), (623, 623, 1, - 211), (625, 625, 1, 10749), (626, 626, 1, - 213),
      (629, 629, 1, - 214), (637, 637, 1, 10727), (640, 640, 1, - 218), (642, 642, 1, 42307),
      (643, 643, 1, - 218), (647, 647, 1, 42282), (648, 648, 1, - 218), (649, 649, 1, - 69),
      (650, 651, 1, - 217), (652, 652, 1, - 71), (658, 658, 1, - 219), (669, 669, 1, 42261),
      (670, 670, 1, 42258), (837, 837, 1, 84), (881, 883, 2, - 1), (887, 887, 1, - 1),
      (891, 893, 1, 130), (940, 940, 1, - 38), (941, 943, 1, - 37), (945, 961, 1, - 32),
      (962, 962, 1, - 31), (963, 971, 1, - 32), (972, 972, 1, - 64), (973, 974, 1, - 63),
      (976, 976, 1, - 62), (977, 977, 1, - 57), (981, 981, 1, - 47), (982, 982, 1, - 54),
      (983, 983, 1, - 8), (985, 1007, 2, - 1), (1008, 1008, 1, - 86), (1009, 1009, 1, - 80),
      (1010, 1010, 1, 7), (1011, 1011, 1, - 116), (1013, 1013, 1, - 96), (1016, 1016, 1, - 1),
      (1019, 1019, 1, - 1), (1072, 1103, 1, - 32), (1104, 1119, 1, - 80), (1121, 1153, 2, - 1),
      (1163, 1215, 2, - 1), (1218, 1230, 2, - 1), (1231, 1231, 1, - 15), (1233, 1327, 2, - 1),
      (1377, 1414, 1, - 48), (4304, 4346, 1, 3008), (4349, 4351, 1, 3008),
      (5112, 5117, 1, - 8), (7296, 7296, 1, - 6254), (7297, 7297, 1, - 6253),
      (7298, 7298, 1, - 6244), (7299, 7300, 1, - 6242), (7301, 7301, 1, - 6243),
      (7302, 7302, 1, - 6236), (7303, 7303, 1, - 6181), (7304, 7304, 1, 35266),
      (7545, 7545, 1, 35332), (7549, 7549, 1, 3814), (7566, 7566, 1, 35384),
      (7681, 7829, 2, - 1), (7835, 7835, 1, - 59), (7841, 7935, 2, - 1), (7936, 7943, 1, 8),
      (7952, 7957, 1, 8), (7968, 7975, 1, 8), (7984, 7991, 1, 8), (8000, 8005, 1, 8),
      (8017, 8023, 2, 8), (8032, 8039, 1, 8), (8048, 8049, 1, 74), (8050, 8053, 1, 86),
      (8054, 8055, 1, 100), (8056, 8057, 1, 128), (8058, 8059, 1, 112), (8060, 8061, 1, 126),
      (8112, 8113, 1, 8), (8126, 8126, 1, - 7205), (8144, 8145, 1, 8), (8160, 8161, 1, 8),
      (8165, 8165, 1, 7), (8526, 8526, 1, - 28), (8560, 8575, 1, - 16), (8580, 8580, 1, - 1),
      (9424, 9449, 1, - 26), (11312, 11359, 1, - 48), (11361, 11361, 1, - 1),
      (11365, 11365, 1, - 10795), (11366, 11366, 1, - 10792), (11368, 11372, 2, - 1),
      (11379, 11379, 1, - 1), (11382, 11382, 1, - 1), (11393, 11491, 2, - 1),
      (11500, 11502, 2, - 1), (11507, 11507, 1, - 1), (11520, 11557, 1, - 7264),
      (11559, 11559, 1, - 7264), (11565, 11565, 1, - 7264), (42561, 42605, 2, - 1),
      (42625, 42651, 2, - 1), (42787, 42799, 2, - 1), (42803, 42863, 2, - 1),
      (42874, 42876, 2, - 1), (42879, 42887, 2, - 1), (42892, 42892, 1, - 1),
      (42897, 42899, 2, - 1), (42900, 42900, 1, 48), (42903, 42921, 2, - 1),
      (42933, 42947, 2, - 1), (42952, 42954, 2, - 1), (42961, 42961, 1, - 1),
      (42967, 42969, 2, - 1), (42998, 42998, 1, - 1), (43859, 43859, 1, - 928),
      (43888, 43967, 1, - 38864), (65345, 65370, 1, - 32), (66600, 66639, 1, - 40),
      (66776, 66811, 1, - 40), (66967, 66977, 1, - 39), (66979, 66993, 1, - 39),
      (66995, 67001, 1, - 39), (67003, 67004, 1, - 39), (68800, 68850, 1, - 64),
      (71872, 71903, 1, - 32), (93792, 93823, 1, - 32), (125218, 125251, 1, - 34)]"

definition lower_char :: "int \<Rightarrow> pystr" where
  "lower_char c =
     (if c < 128 then (if 65 \<le> c \<and> c \<le> 90 then [c + 32] else [c])
      else case_map lower_special lower_rules c)"

definition upper_char :: "int \<Rightarrow> pystr" where
  "upper_char c =
     (if c < 128 then (if 97 \<le> c \<and> c \<le> 122 then [c - 32] else [c])
      else case_map upper_special upper_rules c)"

text \<open>
  \<open>str.lower\<close> maps the capital sigma U+03A3 by its context: to the final sigma
  U+03C2 when a cased letter comes before it and none after it, case-ignorable code
  points skipped on both sides, and to U+03C3 otherwise. \<open>cased_ranges\<close> holds the
  cased code points that are not case-ignorable, the only ones the test can reach.
\<close>

definition case_ignorable_ranges :: "(int \<times> int) list" where
  "case_ignorable_ranges =
     [(39, 39), (46, 46), (58, 58), (94, 94), (96, 96), (168, 168), (173, 173), (175, 175),
      (180, 180), (183, 184), (688, 879), (884, 885), (890, 890), (900, 901), (903, 903),
      (1155, 1161), (1369, 1369), (1375, 1375), (1425, 1469), (1471, 1471), (1473, 1474),
      (1476, 1477), (1479, 1479), (1524, 1524), (1536, 1541), (1552, 1562), (1564, 1564),
      (1600, 1600), (1611, 1631), (1648, 1648), (1750, 1757), (1759, 1768), (1770, 1773),
      (1807, 1807), (1809, 1809), (1840, 1866), (1958, 1968), (2027, 2037), (2042, 2042),
      (2045, 2045), (2070, 2093), (2137, 2139), (2184, 2184), (2192, 2193), (2200, 2207),
      (2249, 2306), (2362, 2362), (2364, 2364), (2369, 2376), (2381, 2381), (2385, 2391),
      (2402, 2403), (2417, 2417), (2433, 2433), (2492, 2492), (2497, 2500), (2509, 2509),
      (2530, 2531), (2558, 2558), (2561, 2562), (2620, 2620), (2625, 2626), (2631, 2632),
      (2635, 2637), (2641, 2641), (2672, 2673), (2677, 2677), (2689, 2690), (2748, 2748),
      (2753, 2757), (2759, 2760), (2765, 2765), (2786, 2787), (2810, 2815), (2817, 2817),
      (2876, 2876), (2879, 2879), (2881, 2884), (2893, 2893), (2901, 2902), (2914, 2915),
      (2946, 2946), (3008, 3008), (3021, 3021), (3072, 3072), (3076, 3076), (3132, 3132),
      (3134, 3136), (3142, 3144), (3146, 3149), (3157, 3158), (3170, 3171), (3201, 3201),
      (3260, 3260), (3263, 3263), (3270, 3270), (3276, 3277), (3298, 3299), (3328, 3329),
      (3387, 3388), (3393, 3396), (3405, 3405), (3426, 3427), (3457, 3457), (3530, 3530),
      (3538, 3540), (3542, 3542), (3633, 3633), (3636, 3642), (3654, 3662), (3761, 3761),
      (3764, 3772), (3782, 3782), (3784, 3789), (3864, 3865), (3893, 3893), (3895, 3895),
      (3897, 3897), (3953, 3966), (3968, 3972), (3974, 3975), (3981, 3991), (3993, 4028),
      (4038, 4038), (4141, 4144), (4146, 4151), (4153, 4154), (4157, 4158), (4184, 4185),
      (4190, 4192), (4209, 4212), (4226, 4226), (4229, 4230), (4237, 4237), (4253, 4253),
      (4348, 4348), (4957, 4959), (5906, 5908), (5938, 5939), (5970, 5971), (6002, 6003),
      (6068, 6069), (6071, 6077), (6086, 6086), (6089, 6099), (6103, 6103), (6109, 6109),
      (6155, 6159), (6211, 6211), (6277, 6278), (6313, 6313), (6432, 6434), (6439, 6440),
      (6450, 6450), (6457, 6459), (6679, 6680), (6683, 6683), (6742, 6742), (6744, 6750),
      (6752, 6752), (6754, 6754), (6757, 6764), (6771, 6780), (6783, 6783), (6823, 6823),
      (6832, 6862), (6912, 6915), (6964, 6964), (6966, 6970), (6972, 6972), (6978, 6978),
      (7019, 7027), (7040, 7041), (7074, 7077), (7080, 7081), (7083, 7085), (7142, 7142),
      (7144, 7145), (7149, 7149), (7151, 7153), (7212, 7219), (7222, 7223), (7288, 7293),
      (7376, 7378), (7380, 7392), (7394, 7400), (7405, 7405), (7412, 7412), (7416, 7417),
      (7468, 7530), (7544, 7544), (7579, 7679), (8125, 8125), (8127, 8129), (8141, 8143),
      (8157, 8159), (8173, 8175), (8189, 8190), (8203, 8207), (8216, 8217), (8228, 8228),
      (8231, 8231), (8234, 8238), (8288, 8292), (8294, 8303), (8305, 8305), (8319, 8319),
      (8336, 8348), (8400, 8432), (11388, 11389), (11503, 11505), (11631, 11631),
      (11647, 11647), (11744, 11775), (11823, 11823), (12293, 12293), (12330, 12333),
      (12337, 12341), (12347, 12347), (12441, 12446), (12540, 12542), (40981, 40981),
      (42232, 42237), (42508, 42508), (42607, 42610), (42612, 42621), (42623, 42623),
      (42652, 42655), (42736, 42737), (42752, 42785), (42864, 42864), (42888, 42890),
      (42994, 42996), (43000, 43001), (43010, 43010), (43014, 43014), (43019, 43019),
      (43045, 43046), (43052, 43052), (43204, 43205), (43232, 43249), (43263, 43263),
      (43302, 43309), (43335, 43345), (43392, 43394), (43443, 43443), (43446, 43449),
      (43452, 43453), (43471, 43471), (43493, 43494), (43561, 43566), (43569, 43570),
      (43573, 43574), (43587, 43587), (43596, 43596), (43632, 43632), (43644, 43644),
      (43696, 43696), (43698, 43700), (43703, 43704), (43710, 43711), (43713, 43713),
      (43741, 43741), (43756, 43757), (43763, 43764), (43766, 43766), (43867, 43871),
      (43881, 43883), (44005, 44005), (44008, 44008), (44013, 44013), (64286, 64286),
      (64434, 64450), (65024, 65039), (65043, 65043), (65056, 65071), (65106, 65106),
      (65109, 65109), (65279, 65279), (65287, 65287), (65294, 65294), (65306, 65306),
      (65342, 65342), (65344, 65344), (65392, 65392), (65438, 65439), (65507, 65507),
      (65529, 65531), (66045, 66045), (66272, 66272), (66422, 66426), (67456, 67461),
      (67463, 67504), (67506, 67514), (68097, 68099), (68101, 68102), (68108, 68111),
      (68152, 68154), (68159, 68159), (68325, 68326), (68900, 68903), (69291, 69292),
      (69446, 69456), (69506, 69509), (69633, 69633), (69688, 69702), (69744, 69744),
      (69747, 69748), (69759, 69761), (69811, 69814), (69817, 69818), (69821, 69821),
      (69826, 69826), (69837, 69837), (69888, 69890), (69927, 69931), (69933, 69940),
      (70003, 70003), (70016, 70017), (70070, 70078), (70089, 70092), (70095, 70095),
      (70191, 70193), (70196, 70196), (70198, 70199), (70206, 70206), (70367, 70367),
      (70371, 70378), (70400, 70401), (70459, 70460), (70464, 70464), (70502, 70508),
      (70512, 70516), (70712, 70719), (70722, 70724), (70726, 70726), (70750, 70750),
      (70835, 70840), (70842, 70842), (70847, 70848), (70850, 70851), (71090, 71093),
      (71100, 71101), (71103, 71104), (71132, 71133), (71219, 71226), (71229, 71229),
      (71231, 71232), (71339, 71339), (71341, 71341), (71344, 71349), (71351, 71351),
      (71453, 71455), (71458, 71461), (71463, 71467), (71727, 71735), (71737, 71738),
      (71995, 71996), (71998, 71998), (72003, 72003), (72148, 72151), (72154, 72155),
      (72160, 72160), (72193, 72202), (72243, 72248), (72251, 72254), (72263, 72263),
      (72273, 72278), (72281, 72283), (72330, 72342), (72344, 72345), (72752, 72758),
      (72760, 72765), (72767, 72767), (72850, 72871), (72874, 72880), (72882, 72883),
      (72885, 72886), (73009, 73014), (73018, 73018), (73020, 73021), (73023, 73029),
      (73031, 73031), (73104, 73105), (73109, 73109), (73111, 73111), (73459, 73460),
      (78896, 78904), (92912, 92916), (92976, 92982), (92992, 92995), (94031, 94031),
      (94095, 94111), (94176, 94177), (94179, 94180), (110576, 110579), (110581, 110587),
      (110589, 110590), (113821, 113822), (113824, 113827), (118528, 118573), (118576, 118598),
      (119143, 119145), (119155, 119170), (119173, 119179), (119210, 119213), (119362, 119364),
      (121344, 121398), (121403, 121452), (121461, 121461), (121476, 121476), (121499, 121503),
      (121505, 121519), (122880, 122886), (122888, 122904), (122907, 122913), (122915, 122916),
      (122918, 122922), (123184, 123197), (123566, 123566), (123628, 123631), (125136, 125142),
      (125252, 125259), (127995, 127999), (917505, 917505), (917536, 917631), (917760, 917999)]"

definition case_ignorable :: "int \<Rightarrow> bool" where
  "case_ignorable c \<longleftrightarrow> in_ranges c case_ignorable_ranges"

definition cased_ranges :: "(int \<times> int) list" where
  "cased_ranges =
     [(65, 90), (97, 122), (170, 170), (181, 181), (186, 186), (192, 214), (216, 246),
      (248, 442), (444, 447), (452, 659), (661, 687), (880, 883), (886, 887), (891, 893),
      (895, 895), (902, 902), (904, 906), (908, 908), (910, 929), (931, 1013), (1015, 1153),
      (1162, 1327), (1329, 1366), (1376, 1416), (4256, 4293), (4295, 4295), (4301, 4301),
      (4304, 4346), (4349, 4351), (5024, 5109), (5112, 5117), (7296, 7304), (7312, 7354),
      (7357, 7359), (7424, 7467), (7531, 7543), (7545, 7578), (7680, 7957), (7960, 7965),
      (7968, 8005), (8008, 8013), (8016, 8023), (8025, 8025), (8027, 8027), (8029, 8029),
      (8031, 8061), (8064, 8116), (8118, 8124), (8126, 8126), (8130, 8132), (8134, 8140),
      (8144, 8147), (8150, 8155), (8160, 8172), (8178, 8180), (8182, 8188), (8450, 8450),
      (8455, 8455), (8458, 8467), (8469, 8469), (8473, 8477), (8484, 8484), (8486, 8486),
      (8488, 8488), (8490, 8493), (8495, 8500), (8505, 8505), (8508, 8511), (8517, 8521),
      (8526, 8526), (8544, 8575), (8579, 8580), (9398, 9449), (11264, 11387), (11390, 11492),
      (11499, 11502), (11506, 11507), (11520, 11557), (11559, 11559), (11565, 11565),
      (42560, 42605), (42624, 42651), (42786, 42863), (42865, 42887), (42891, 42894),
      (42896, 42954), (42960, 42961), (42963, 42963), (42965, 42969), (42997, 42998),
      (43002, 43002), (43824, 43866), (43872, 43880), (43888, 43967), (64256, 64262),
      (64275, 64279), (65313, 65338), (65345, 65370), (66560, 66639), (66736, 66771),
      (66776, 66811), (66928, 66938), (66940, 66954), (66956, 66962), (66964, 66965),
      (66967, 66977), (66979, 66993), (66995, 67001), (67003, 67004), (68736, 68786),
      (68800, 68850), (71840, 71903), (93760, 93823), (119808, 119892), (119894, 119964),
      (119966, 119967), (119970, 119970), (119973, 119974), (119977, 119980), (119982, 119993),
      (119995, 119995), (119997, 120003), (120005, 120069), (120071, 120074), (120077, 120084),
      (120086, 120092), (120094, 120121), (120123, 120126), (120128, 120132), (120134, 120134),
      (120138, 120144), (120146, 120485), (120488, 120512), (120514, 120538), (120540, 120570),
      (120572, 120596), (120598, 120628), (120630, 120654), (120656, 120686), (120688, 120712),
      (120714, 120744), (120746, 120770), (120772, 120779), (122624, 122633), (122635, 122654),
      (125184, 125251), (127280, 127305), (127312, 127337), (127344, 127369)]"

definition cased :: "int \<Rightarrow> bool" where
  "cased c \<longleftrightarrow> in_ranges c cased_ranges"

text \<open>\<open>before\<close> are the code points before the sigma, the nearest first.\<close>

definition final_sigma :: "pystr \<Rightarrow> pystr \<Rightarrow> bool" where
  "final_sigma before after =
     (case dropWhile case_ignorable before of
        [] \<Rightarrow> False
      | b # _ \<Rightarrow>
          cased b \<and>
          (case dropWhile case_ignorable after of [] \<Rightarrow> True | a # _ \<Rightarrow> \<not> cased a))"

fun lower_from :: "pystr \<Rightarrow> pystr \<Rightarrow> pystr" where
  "lower_from before [] = []"
| "lower_from before (c # cs) =
     (if c = 931 then [if final_sigma before cs then 962 else 963] else lower_char c)
       @ lower_from (c # before) cs"

definition lower :: "pystr \<Rightarrow> pystr" where
  "lower s = lower_from [] s"

definition upper :: "pystr \<Rightarrow> pystr" where
  "upper s = concat (map upper_char s)"

text \<open>\<open>s.strip()\<close>: leading and trailing whitespace removed.\<close>

definition strip :: "pystr \<Rightarrow> pystr" where
  "strip s = rev (dropWhile isspace_char (rev (dropWhile isspace_char s)))"

text \<open>\<open>s.isdigit()\<close>: false on the empty string.\<close>

definition isdigit :: "pystr \<Rightarrow> bool" where
  "isdigit s \<longleftrightarrow> s \<noteq> [] \<and> list_all isdigit_char s"

text \<open>\<open>sep.join(parts)\<close>.\<close>

fun join :: "pystr \<Rightarrow> pystr list \<Rightarrow> pystr" where
  "join sep [] = []"
| "join sep [x] = x"
| "join sep (x # y # ys) = x @ sep @ join sep (y # ys)"

text \<open>\<open>t in s\<close> is \<^const>\<open>sublist\<close> and \<open>s.startswith(t)\<close> is \<^const>\<open>prefix\<close>.\<close>

section \<open>The parsed document\<close>

text \<open>
  BeautifulSoup's tree: a node is a text node or a tag with its name, the list of its
  classes (the multi-valued \<open>class\<close> attribute, empty when absent), its \<open>alt\<close> attribute
  (the only other attribute the program reads) and its children in document order. The
  soup itself is the root tag. A tag is always truthy in Python, so \<open>if tag:\<close> only tests
  for \<open>None\<close>.
\<close>

datatype node =
    NavigableString pystr
  | Tag (tag_name: pystr) (tag_classes: "pystr list") (tag_alt: "pystr option")
      (tag_contents: "node list")

fun is_tag :: "node \<Rightarrow> bool" where
  "is_tag (NavigableString s) = False"
| "is_tag (Tag n cs a ks) = True"

text \<open>The tags below a node, in document order (what \<open>find_all()\<close> walks).\<close>

fun descendants :: "node \<Rightarrow> node list"
  and descendants_list :: "node list \<Rightarrow> node list" where
  "descendants (NavigableString s) = []"
| "descendants (Tag n cs a ks) = descendants_list ks"
| "descendants_list [] = []"
| "descendants_list (k # ks) =
     (if is_tag k then [k] else []) @ descendants k @ descendants_list ks"

text \<open>The text nodes below a node, in document order.\<close>

fun all_strings :: "node \<Rightarrow> pystr list"
  and all_strings_list :: "node list \<Rightarrow> pystr list" where
  "all_strings (NavigableString s) = [s]"
| "all_strings (Tag n cs a ks) = all_strings_list ks"
| "all_strings_list [] = []"
| "all_strings_list (k # ks) = all_strings k @ all_strings_list ks"

text \<open>
  \<open>tag.get_text(sep, strip=True)\<close>: every text node is stripped, the empty ones are
  skipped and the rest is joined with \<open>sep\<close>.
\<close>

definition get_text :: "pystr \<Rightarrow> node \<Rightarrow> pystr" where
  "get_text sep t = join sep (filter (\<lambda>s. s \<noteq> []) (map strip (all_strings t)))"

text \<open>\<open>tag.find_all(names)\<close>, \<open>tag.find_all(name, class_=c)\<close> and the matching \<open>find\<close>.\<close>

definition find_all :: "pystr list \<Rightarrow> node \<Rightarrow> node list" where
  "find_all names t = filter (\<lambda>d. tag_name d \<in> set names) (descendants t)"

definition has_class :: "pystr \<Rightarrow> pystr \<Rightarrow> node \<Rightarrow> bool" where
  "has_class n c d \<longleftrightarrow> is_tag d \<and> tag_name d = n \<and> c \<in> set (tag_classes d)"

definition find_all_class :: "pystr \<Rightarrow> pystr \<Rightarrow> node \<Rightarrow> node list" where
  "find_all_class n c t = filter (has_class n c) (descendants t)"

definition find_first :: "pystr list \<Rightarrow> node \<Rightarrow> node option" where
  "find_first names t = (case find_all names t of [] \<Rightarrow> None | d # _ \<Rightarrow> Some d)"

definition find_first_class :: "pystr \<Rightarrow> pystr \<Rightarrow> node \<Rightarrow> node option" where
  "find_first_class n c t = (case find_all_class n c t of [] \<Rightarrow> None | d # _ \<Rightarrow> Some d)"

section \<open>Table classifier\<close>

definition has_flagicon :: "node \<Rightarrow> bool" where
  "has_flagicon table \<longleftrightarrow> find_all_class (ustr ''span'') (ustr ''flagicon'') table \<noteq> []"

definition country_terms :: "pystr list" where
  "country_terms =
     [ustr ''nation'', ustr ''nat'', ustr ''nat.'', ustr ''country'', ustr ''nationality'']"

definition is_player_table :: "node \<Rightarrow> bool \<Rightarrow> bool" where
  "is_player_table table require_country =
     (let header_cells = find_all [ustr ''th''] table;
          headers = map (\<lambda>th. lower (get_text (ustr '' '') th)) header_cells
      in if headers = [] then False
         else
           let has_player =
                 list_ex (\<lambda>h. sublist (ustr ''player'') h \<or> h = ustr ''name'') headers;
               has_position =
                 list_ex (\<lambda>h. sublist (ustr ''pos'') h \<or> sublist (ustr ''position'') h) headers;
               has_country =
                 list_ex (\<lambda>h. list_ex (\<lambda>term. sublist term h) country_terms) headers;
               has_number =
                 list_ex (\<lambda>h. prefix (ustr ''no'') h \<or> h = ustr ''n''
                              \<or> sublist (ustr ''squad number'') h) headers
           in if require_country then has_player \<and> has_position \<and> has_country
              else has_player \<and> has_position
                     \<and> (has_country \<or> (has_flagicon table \<and> has_number)))"

section \<open>Table selector\<close>

text \<open>
  \<open>headline_spans sibs n\<close> lists the tags below \<open>n\<close> that
  \<open>soup.find_all("span", class_="mw-headline")\<close> returns, in document order, each with the
  later siblings of its parent: the nodes that the loop over \<open>heading.find_next_sibling()\<close>
  visits for it. \<open>sibs\<close> are the later siblings of \<open>n\<close> itself; the soup has none.
\<close>

fun headline_spans :: "node list \<Rightarrow> node \<Rightarrow> (node \<times> node list) list"
  and headline_spans_list :: "node list \<Rightarrow> node list \<Rightarrow> (node \<times> node list) list" where
  "headline_spans sibs (NavigableString s) = []"
| "headline_spans sibs (Tag n cs a ks) = headline_spans_list sibs ks"
| "headline_spans_list sibs [] = []"
| "headline_spans_list sibs (k # ks) =
     (if has_class (ustr ''span'') (ustr ''mw-headline'') k then [(k, sibs)] else [])
       @ headline_spans ks k @ headline_spans_list sibs ks"

definition is_squad_heading :: "node \<Rightarrow> bool" where
  "is_squad_heading span =
     (let text = lower (get_text [] span)
      in sublist (ustr ''first-team squad'') text \<or> sublist (ustr ''first team squad'') text)"

definition is_wikitable :: "node \<Rightarrow> bool" where
  "is_wikitable sib = has_class (ustr ''table'') (ustr ''wikitable'') sib"

text \<open>
  The inner \<open>while\<close> loop over the siblings of one heading. \<open>Inl\<close> is the \<open>return sib\<close> of
  a strict match; \<open>Inr\<close> carries \<open>fallback_near_heading\<close> on to the next heading.
\<close>

fun scan_siblings :: "node option \<Rightarrow> node list \<Rightarrow> node + node option" where
  "scan_siblings fallback_near_heading [] = Inr fallback_near_heading"
| "scan_siblings fallback_near_heading (sib # sibs) =
     (if is_wikitable sib then
        if is_player_table sib True then Inl sib
        else if fallback_near_heading = None \<and> is_player_table sib False
          then scan_siblings (Some sib) sibs
          else scan_siblings fallback_near_heading sibs
      else scan_siblings fallback_near_heading sibs)"

fun scan_headings :: "node option \<Rightarrow> (node \<times> node list) list \<Rightarrow> node + node option" where
  "scan_headings fallback_near_heading [] = Inr fallback_near_heading"
| "scan_headings fallback_near_heading ((span, sibs) # rest) =
     (if is_squad_heading span then
        (case scan_siblings fallback_near_heading sibs of
           Inl table \<Rightarrow> Inl table
         | Inr fallback \<Rightarrow> scan_headings fallback rest)
      else scan_headings fallback_near_heading rest)"

definition find_first_team_table :: "node \<Rightarrow> node option" where
  "find_first_team_table soup =
     (case scan_headings None (headline_spans [] soup) of
        Inl table \<Rightarrow> Some table
      | Inr (Some fallback_near_heading) \<Rightarrow> Some fallback_near_heading
      | Inr None \<Rightarrow>
          let tables = find_all_class (ustr ''table'') (ustr ''wikitable'') soup
          in (case find (\<lambda>table. is_player_table table True) tables of
                Some table \<Rightarrow> Some table
              | None \<Rightarrow>
                  (case find (\<lambda>table. is_player_table table False) tables of
                     Some table \<Rightarrow> Some table
                   | None \<Rightarrow> find_first_class (ustr ''table'') (ustr ''wikitable'') soup)))"



section \<open>Column inference\<close>

record columns =
  col_player :: "nat option"
  col_pos :: "nat option"
  col_nat :: "nat option"
  col_number :: "nat option"

definition no_columns :: columns where
  "no_columns = \<lparr>col_player = None, col_pos = None, col_nat = None, col_number = None\<rparr>"

definition is_name_header :: "pystr \<Rightarrow> bool" where
  "is_name_header header \<longleftrightarrow> sublist (ustr ''player'') header \<or> header = ustr ''name''"

definition is_pos_header :: "pystr \<Rightarrow> bool" where
  "is_pos_header header \<longleftrightarrow> sublist (ustr ''pos'') header \<or> sublist (ustr ''position'') header"

definition is_nat_header :: "pystr \<Rightarrow> bool" where
  "is_nat_header header \<longleftrightarrow>
     sublist (ustr ''nation'') header \<or> sublist (ustr ''nat'') header
       \<or> sublist (ustr ''country'') header"

definition is_number_header :: "pystr \<Rightarrow> bool" where
  "is_number_header header \<longleftrightarrow>
     sublist (ustr ''no'') header \<or> header = ustr ''n''
       \<or> sublist (ustr ''squad number'') header \<or> sublist (ustr ''number'') header"

text \<open>One pass of the body of \<open>for idx, header in enumerate(headers)\<close>.\<close>

definition assign_step :: "nat \<Rightarrow> pystr \<Rightarrow> columns \<Rightarrow> columns" where
  "assign_step idx header c =
     (if is_name_header header then c\<lparr>col_player := Some idx\<rparr>
      else if is_pos_header header then c\<lparr>col_pos := Some idx\<rparr>
      else if is_nat_header header then c\<lparr>col_nat := Some idx\<rparr>
      else if is_number_header header then c\<lparr>col_number := Some idx\<rparr>
      else c)"

fun assign_columns :: "nat \<Rightarrow> pystr list \<Rightarrow> columns \<Rightarrow> columns" where
  "assign_columns idx [] c = c"
| "assign_columns idx (header # rest) c = assign_columns (Suc idx) rest (assign_step idx header c)"

text \<open>
  The roles of the specification, the branch of the \<open>if\<close>/\<open>elif\<close> chain that a header
  text takes, and the variable that holds the column of a role.
\<close>

datatype column_role = RoleName | RolePosition | RoleNationality | RoleShirtNumber

definition header_role :: "pystr \<Rightarrow> column_role option" where
  "header_role header =
     (if is_name_header header then Some RoleName
      else if is_pos_header header then Some RolePosition
      else if is_nat_header header then Some RoleNationality
      else if is_number_header header then Some RoleShirtNumber
      else None)"

fun role_column :: "column_role \<Rightarrow> columns \<Rightarrow> nat option" where
  "role_column RoleName c = col_player c"
| "role_column RolePosition c = col_pos c"
| "role_column RoleNationality c = col_nat c"
| "role_column RoleShirtNumber c = col_number c"

text \<open>
  \<open>first_cells\<close>: the first cell of each of the rows \<open>table.find_all("tr")[1:6]\<close> that has
  a cell.
\<close>

definition first_cells :: "node \<Rightarrow> node list" where
  "first_cells table =
     List.map_filter
       (\<lambda>tr. case find_all [ustr ''td'', ustr ''th''] tr of [] \<Rightarrow> None | cell # _ \<Rightarrow> Some cell)
       (take 5 (drop 1 (find_all [ustr ''tr''] table)))"

definition implicit_number_column :: "node \<Rightarrow> pystr list \<Rightarrow> columns \<Rightarrow> columns" where
  "implicit_number_column table headers c =
     (if col_number c = None \<and> headers \<noteq> [] then
        (case first_cells table of
           [] \<Rightarrow> c
         | cell # _ \<Rightarrow>
             let first_cell_text = get_text [] cell
             in if isdigit first_cell_text \<or> first_cell_text = [] then
                  c\<lparr>col_number := Some 0,
                    col_player := map_option Suc (col_player c),
                    col_pos := map_option Suc (col_pos c),
                    col_nat := map_option Suc (col_nat c)\<rparr>
                else c)
      else c)"

text \<open>The header texts of the first row of a table and the columns the parser uses.\<close>

definition header_texts :: "node \<Rightarrow> pystr list" where
  "header_texts header_row =
     map (\<lambda>th. lower (get_text (ustr '' '') th)) (find_all [ustr ''th''] header_row)"

definition table_columns :: "node \<Rightarrow> node \<Rightarrow> columns" where
  "table_columns table header_row =
     (let headers = header_texts header_row
      in implicit_number_column table headers (assign_columns 0 headers no_columns))"

section \<open>Row normalizer\<close>

record player_row =
  Name :: pystr
  Team :: pystr
  Country :: pystr
  Position :: pystr
  League :: pystr
  Shirt_Number :: pystr

datatype py_error = IndexError

text \<open>\<open>xs[i]\<close> for a non-negative \<open>i\<close>: Python raises \<open>IndexError\<close> out of range.\<close>

definition getitem :: "'a list \<Rightarrow> nat \<Rightarrow> py_error + 'a" where
  "getitem xs i = (if i < length xs then Inr (xs ! i) else Inl IndexError)"

text \<open>
  \<open>get_cell\<close> returns the cell or the empty string \<open>""\<close>, which is \<open>None\<close> here: the
  callers only test the result for truth.
\<close>

definition get_cell :: "node list \<Rightarrow> nat option \<Rightarrow> py_error + node option" where
  "get_cell cells idx =
     (case idx of
        None \<Rightarrow> Inr None
      | Some i \<Rightarrow>
          if i \<ge> length cells then Inr None
          else (case getitem cells i of Inl e \<Rightarrow> Inl e | Inr cell \<Rightarrow> Inr (Some cell)))"

text \<open>
  The guard of \<open>get_cell\<close>, \<open>idx is None or idx >= len(cells)\<close>, and the cell that a
  lookup yields.
\<close>

definition out_of_range :: "nat option \<Rightarrow> node list \<Rightarrow> bool" where
  "out_of_range idx cells = (case idx of None \<Rightarrow> True | Some i \<Rightarrow> i \<ge> length cells)"

definition lookup_cell :: "node list \<Rightarrow> nat option \<Rightarrow> node option" where
  "lookup_cell cells idx =
     (case idx of None \<Rightarrow> None | Some i \<Rightarrow> if i \<ge> length cells then None else Some (cells ! i))"

definition cell_name :: "node option \<Rightarrow> pystr" where
  "cell_name player_cell =
     (case player_cell of
        None \<Rightarrow> []
      | Some cell \<Rightarrow>
          (case find_first [ustr ''a''] cell of
             Some link \<Rightarrow> get_text [] link
           | None \<Rightarrow> get_text (ustr '' '') cell))"

definition cell_position :: "node option \<Rightarrow> pystr" where
  "cell_position pos_cell =
     (case pos_cell of None \<Rightarrow> [] | Some cell \<Rightarrow> get_text (ustr '' '') cell)"

text \<open>\<open>img and img.get("alt")\<close>: the \<open>alt\<close> text when the image exists and the text is not empty.\<close>

definition truthy_alt :: "node option \<Rightarrow> pystr option" where
  "truthy_alt img =
     (case img of
        None \<Rightarrow> None
      | Some i \<Rightarrow> (case tag_alt i of None \<Rightarrow> None | Some a \<Rightarrow> if a = [] then None else Some a))"

definition extract_country_from_cell :: "node option \<Rightarrow> pystr" where
  "extract_country_from_cell cell =
     (case cell of
        None \<Rightarrow> []
      | Some c \<Rightarrow>
          (case find_first_class (ustr ''span'') (ustr ''flagicon'') c of
             None \<Rightarrow> []
           | Some flag \<Rightarrow>
               (case truthy_alt (find_first [ustr ''img''] flag) of
                  Some a \<Rightarrow> strip a
                | None \<Rightarrow>
                    (case find_first [ustr ''a''] flag of
                       Some link \<Rightarrow> get_text [] link
                     | None \<Rightarrow> []))))"

text \<open>The country of a row before it is mapped to a code.\<close>

definition cell_country :: "node option \<Rightarrow> node option \<Rightarrow> pystr" where
  "cell_country nat_cell player_cell =
     (case nat_cell of
        Some cell \<Rightarrow>
          (case find_all [ustr ''a''] cell of
             [] \<Rightarrow> get_text (ustr '' '') cell
           | l # ls \<Rightarrow> get_text [] (last (l # ls)))
      | None \<Rightarrow> extract_country_from_cell player_cell)"

text \<open>\<open>re.findall(r'\d+', s)\<close>: the maximal runs of digits, from left to right.\<close>

function findall_digits :: "pystr \<Rightarrow> pystr list" where
  "findall_digits s =
     (case dropWhile (\<lambda>c. \<not> isdecimal_char c) s of
        [] \<Rightarrow> []
      | d # ds \<Rightarrow> takeWhile isdecimal_char (d # ds) # findall_digits (dropWhile isdecimal_char ds))"
  by pat_completeness auto
termination
proof (relation "measure length")
  show "wf (measure length)" by simp
next
  fix s :: pystr and d ds
  assume "dropWhile (\<lambda>c. \<not> isdecimal_char c) s = d # ds"
  then have "length (d # ds) \<le> length s"
    by (metis length_dropWhile_le)
  moreover have "length (dropWhile isdecimal_char ds) \<le> length ds"
    by (rule length_dropWhile_le)
  ultimately show "(dropWhile isdecimal_char ds, s) \<in> measure length"
    by simp
qed

text \<open>\<open>s.replace(c, "")\<close> for a single character \<open>c\<close>.\<close>

definition remove_char :: "int \<Rightarrow> pystr \<Rightarrow> pystr" where
  "remove_char c s = filter (\<lambda>x. x \<noteq> c) s"

definition clean_shirt_number :: "pystr \<Rightarrow> pystr" where
  "clean_shirt_number shirt_number =
     (if shirt_number \<noteq> []
         \<and> \<not> isdigit (remove_char 47 (remove_char 45 shirt_number))
      then (case findall_digits shirt_number of [] \<Rightarrow> [] | n # _ \<Rightarrow> n)
      else shirt_number)"

definition cell_shirt_number :: "node option \<Rightarrow> pystr" where
  "cell_shirt_number number_cell =
     (case number_cell of
        None \<Rightarrow> []
      | Some cell \<Rightarrow> clean_shirt_number (get_text (ustr '' '') cell))"

definition country_map :: "(pystr \<times> pystr) list" where
  "country_map =
     [(ustr ''Spain'', ustr ''ESP''), (ustr ''Spanish'', ustr ''ESP''),
      (ustr ''Netherlands'', ustr ''NED''), (ustr ''Dutch'', ustr ''NED''),
      (ustr ''England'', ustr ''ENG''), (ustr ''English'', ustr ''ENG''),
      (ustr ''France'', ustr ''FRA''), (ustr ''French'', ustr ''FRA''),
      (ustr ''Germany'', ustr ''GER''), (ustr ''German'', ustr ''GER''),
      (ustr ''Brazil'', ustr ''BRA''), (ustr ''Brazilian'', ustr ''BRA''),
      (ustr ''Argentina'', ustr ''ARG''), (ustr ''Argentine'', ustr ''ARG''),
      (ustr ''Portugal'', ustr ''POR''), (ustr ''Portuguese'', ustr ''POR''),
      (ustr ''Italy'', ustr ''ITA''), (ustr ''Italian'', ustr ''ITA''),
      (ustr ''Belgium'', ustr ''BEL''), (ustr ''Belgian'', ustr ''BEL''),
      (ustr ''Uruguay'', ustr ''URU''), (ustr ''Uruguayan'', ustr ''URU''),
      (ustr ''Colombia'', ustr ''COL''), (ustr ''Colombian'', ustr ''COL''),
      (ustr ''Sweden'', ustr ''SWE''), (ustr ''Swedish'', ustr ''SWE''),
      (ustr ''Norway'', ustr ''NOR''), (ustr ''Norwegian'', ustr ''NOR''),
      (ustr ''Denmark'', ustr ''DEN''), (ustr ''Danish'', ustr ''DEN''),
      (ustr ''Poland'', ustr ''POL''), (ustr ''Polish'', ustr ''POL''),
      (ustr ''Croatia'', ustr ''CRO''), (ustr ''Croatian'', ustr ''CRO''),
      (ustr ''Serbia'', ustr ''SRB''), (ustr ''Serbian'', ustr ''SRB''),
      (ustr ''Ghana'', ustr ''GHA''), (ustr ''Ghanaian'', ustr ''GHA''),
      (ustr ''Senegal'', ustr ''SEN''), (ustr ''Senegalese'', ustr ''SEN''),
      (ustr ''Egypt'', ustr ''EGY''), (ustr ''Egyptian'', ustr ''EGY''),
      (ustr ''Japan'', ustr ''JPN''), (ustr ''Japanese'', ustr ''JPN''),
      (ustr ''South Korea'', ustr ''KOR''), (ustr ''Korean'', ustr ''KOR''),
      (ustr ''Australia'', ustr ''AUS''), (ustr ''Australian'', ustr ''AUS''),
      (ustr ''Canada'', ustr ''CAN''), (ustr ''Canadian'', ustr ''CAN''),
      (ustr ''United States'', ustr ''USA''), (ustr ''American'', ustr ''USA''),
      (ustr ''USA'', ustr ''USA''), (ustr ''Mexico'', ustr ''MEX''),
      (ustr ''Mexican'', ustr ''MEX''), (ustr ''Hungary'', ustr ''HUN''),
      (ustr ''Hungarian'', ustr ''HUN''), (ustr ''Romania'', ustr ''ROU''),
      (ustr ''Romanian'', ustr ''ROU''), (ustr ''Austria'', ustr ''AUT''),
      (ustr ''Austrian'', ustr ''AUT''), (ustr ''Switzerland'', ustr ''SUI''),
      (ustr ''Swiss'', ustr ''SUI''), (ustr ''Wales'', ustr ''WAL''),
      (ustr ''Welsh'', ustr ''WAL''), (ustr ''Scotland'', ustr ''SCO''),
      (ustr ''Scottish'', ustr ''SCO''), (ustr ''Northern Ireland'', ustr ''NIR''),
      (ustr ''Northern Irish'', ustr ''NIR''), (ustr ''Republic of Ireland'', ustr ''IRL''),
      (ustr ''Irish'', ustr ''IRL''), (ustr ''Georgia'', ustr ''GEO''),
      (ustr ''Georgian'', ustr ''GEO''), (ustr ''Mali'', ustr ''MLI''),
      (ustr ''Malian'', ustr ''MLI''), (ustr ''Ivory Coast'', ustr ''CIV''),
      (ustr ''Ivorian'', ustr ''CIV''), (ustr ''Algeria'', ustr ''ALG''),
      (ustr ''Algerian'', ustr ''ALG''), (ustr ''Uzbekistan'', ustr ''UZB''),
      (ustr ''Uzbek'', ustr ''UZB''), (ustr ''Czech Republic'', ustr ''CZE''),
      (ustr ''Czech'', ustr ''CZE''), (ustr ''Israel'', ustr ''ISR''),
      (ustr ''Israeli'', ustr ''ISR''), (ustr ''Ecuador'', ustr ''ECU''),
      (ustr ''Ecuadorian'', ustr ''ECU'')]"

definition normalize_country :: "pystr \<Rightarrow> pystr" where
  "normalize_country country =
     (if country = [] then country
      else (case map_of country_map country of
              Some code \<Rightarrow> code
            | None \<Rightarrow> if length country \<le> 3 then upper country else country))"

text \<open>
  One pass of the loop over the data rows: \<open>Inr None\<close> is a row that is skipped with
  \<open>continue\<close>, \<open>Inl\<close> an exception.
\<close>

definition parse_row :: "columns \<Rightarrow> pystr \<Rightarrow> pystr \<Rightarrow> node \<Rightarrow> py_error + player_row option" where
  "parse_row c team league tr =
     (let cells = find_all [ustr ''td'', ustr ''th''] tr
      in if length cells < 2 then Inr None
         else
           (case get_cell cells (col_player c) of Inl e \<Rightarrow> Inl e | Inr player_cell \<Rightarrow>
           (case get_cell cells (col_pos c) of Inl e \<Rightarrow> Inl e | Inr pos_cell \<Rightarrow>
           (case get_cell cells (col_nat c) of Inl e \<Rightarrow> Inl e | Inr nat_cell \<Rightarrow>
           (case get_cell cells (col_number c) of Inl e \<Rightarrow> Inl e | Inr number_cell \<Rightarrow>
              let name = cell_name player_cell;
                  position = cell_position pos_cell;
                  country = cell_country nat_cell player_cell;
                  shirt_number = cell_shirt_number number_cell
              in if name = [] then Inr None
                 else Inr (Some \<lparr>Name = name, Team = team,
                                 Country = normalize_country country,
                                 Position = position, League = league,
                                 Shirt_Number = shirt_number\<rparr>))))))"

fun parse_rows :: "columns \<Rightarrow> pystr \<Rightarrow> pystr \<Rightarrow> node list \<Rightarrow> py_error + player_row list" where
  "parse_rows c team league [] = Inr []"
| "parse_rows c team league (tr # trs) =
     (case parse_row c team league tr of
        Inl e \<Rightarrow> Inl e
      | Inr r \<Rightarrow>
          (case parse_rows c team league trs of
             Inl e \<Rightarrow> Inl e
           | Inr rows \<Rightarrow> Inr (case r of None \<Rightarrow> rows | Some row \<Rightarrow> row # rows)))"

definition parse_first_team_table :: "node option \<Rightarrow> pystr \<Rightarrow> pystr \<Rightarrow> py_error + player_row list" where
  "parse_first_team_table table team league =
     (case table of
        None \<Rightarrow> Inr []
      | Some t \<Rightarrow>
          (case find_first [ustr ''tr''] t of
             None \<Rightarrow> Inr []
           | Some header_row \<Rightarrow>
               parse_rows (table_columns t header_row) team league
                 (drop 1 (find_all [ustr ''tr''] t))))"

section \<open>Fetching a club\<close>

definition MIN_PLAYER_THRESHOLD :: nat where
  "MIN_PLAYER_THRESHOLD = 10"

text \<open>
  The loop over the URLs of a club. \<open>fetch_soup\<close> is the network: the page each URL
  yields, \<open>None\<close> when the download fails.
\<close>

fun try_urls :: "(pystr \<Rightarrow> node option) \<Rightarrow> pystr \<Rightarrow> pystr \<Rightarrow> player_row list \<Rightarrow> pystr list
    \<Rightarrow> py_error + player_row list" where
  "try_urls fetch_soup team league partial_rows [] = Inr partial_rows"
| "try_urls fetch_soup team league partial_rows (url # rest) =
     (case fetch_soup url of
        None \<Rightarrow> try_urls fetch_soup team league partial_rows rest
      | Some soup \<Rightarrow>
          (case find_first_team_table soup of
             None \<Rightarrow> try_urls fetch_soup team league partial_rows rest
           | Some table \<Rightarrow>
               (case parse_first_team_table (Some table) team league of
                  Inl e \<Rightarrow> Inl e
                | Inr rows \<Rightarrow>
                    if rows \<noteq> [] then
                      if length rows \<ge> MIN_PLAYER_THRESHOLD then Inr rows
                      else try_urls fetch_soup team league rows rest
                    else try_urls fetch_soup team league partial_rows rest)))"

text \<open>The roster that one URL yields: empty when the page, the table or the players are missing.\<close>

definition url_rows :: "(pystr \<Rightarrow> node option) \<Rightarrow> pystr \<Rightarrow> pystr \<Rightarrow> pystr \<Rightarrow> player_row list" where
  "url_rows fetch_soup team league url =
     (case fetch_soup url of
        None \<Rightarrow> []
      | Some soup \<Rightarrow>
          (case find_first_team_table soup of
             None \<Rightarrow> []
           | Some table \<Rightarrow>
               (case parse_first_team_table (Some table) team league of
                  Inl e \<Rightarrow> []
                | Inr rows \<Rightarrow> rows)))"

section \<open>Row validator and enrichment\<close>

definition invalid_names :: "pystr list" where
  "invalid_names =
     [ustr ''apps'', ustr ''goals'', ustr ''2'', ustr ''spain'', ustr ''france'',
      ustr ''netherlands'']"

definition invalid_positions :: "pystr list" where
  "invalid_positions =
     [ustr ''manager'', ustr ''coach'', ustr ''assistant coaches'',
      ustr ''goalkeeping coach'', [8212]]"

definition is_valid_player_row :: "player_row \<Rightarrow> bool" where
  "is_valid_player_row row =
     (let name = strip (Name row);
          position = lower (strip (Position row))
      in if lower name \<in> set invalid_names \<or> length name < 2 then False
         else if position \<in> set invalid_positions then False
         else if name = [] then False
         else True)"

text \<open>
  \<open>search_player_info\<close> looks the name up in the table \<open>known_players\<close> and asks
  Wikipedia otherwise. The table and the network are parameters: \<open>wikipedia\<close> is what the
  search for a name returns.
\<close>

definition search_player_info ::
    "(pystr \<rightharpoonup> pystr \<times> pystr) \<Rightarrow> (pystr \<Rightarrow> pystr \<times> pystr) \<Rightarrow> pystr \<Rightarrow> pystr \<Rightarrow> pystr \<times> pystr" where
  "search_player_info known_players wikipedia name team =
     (case known_players name of Some info \<Rightarrow> info | None \<Rightarrow> wikipedia name)"

text \<open>
  The body of the loop of \<open>fill_missing_data\<close> for a valid row: the row after the two
  assignments and the number of fields filled. The row in \<open>valid_rows\<close> is the same object,
  so it is the updated row that the function returns.
\<close>

definition fill_row :: "(pystr \<Rightarrow> pystr \<Rightarrow> pystr \<times> pystr) \<Rightarrow> player_row \<Rightarrow> player_row \<times> nat" where
  "fill_row search row =
     (let name = Name row;
          team = Team row;
          country = strip (Country row);
          shirt_number = strip (Shirt_Number row);
          (found_country, found_number) = search name team;
          (row1, n1) = (if country = [] \<and> found_country \<noteq> []
                        then (row\<lparr>Country := found_country\<rparr>, 1) else (row, 0));
          (row2, n2) = (if shirt_number = [] \<and> found_number \<noteq> []
                        then (row1\<lparr>Shirt_Number := found_number\<rparr>, n1 + 1) else (row1, n1))
      in (row2, n2))"

fun fill_loop :: "(pystr \<Rightarrow> pystr \<Rightarrow> pystr \<times> pystr) \<Rightarrow> player_row list \<Rightarrow> player_row list \<Rightarrow> nat
    \<Rightarrow> player_row list \<times> nat" where
  "fill_loop search [] valid_rows filled_count = (valid_rows, filled_count)"
| "fill_loop search (row # rows) valid_rows filled_count =
     (if \<not> is_valid_player_row row then fill_loop search rows valid_rows filled_count
      else
        let (row', n) = fill_row search row
        in fill_loop search rows (valid_rows @ [row']) (filled_count + n))"

definition fill_missing_data ::
    "(pystr \<rightharpoonup> pystr \<times> pystr) \<Rightarrow> (pystr \<Rightarrow> pystr \<times> pystr) \<Rightarrow> player_row list \<Rightarrow> player_row list" where
  "fill_missing_data known_players wikipedia rows =
     fst (fill_loop (search_player_info known_players wikipedia) rows [] 0)"

text \<open>A club of the list \<open>CLUBS\<close> and the rows fetched for it.\<close>

record club_cfg =
  team :: pystr
  league :: pystr
  urls :: "pystr list"

definition fetch_club_squad :: "(pystr \<Rightarrow> node option) \<Rightarrow> club_cfg \<Rightarrow> py_error + player_row list" where
  "fetch_club_squad fetch_soup club = try_urls fetch_soup (team club) (league club) [] (urls club)"

text \<open>
  The rows that \<open>main\<close> collects from the clubs, in their order, and the rows it hands to
  the writer after \<open>fill_missing_data\<close>.
\<close>

fun collect_rows :: "(pystr \<Rightarrow> node option) \<Rightarrow> club_cfg list \<Rightarrow> py_error + player_row list" where
  "collect_rows fetch_soup [] = Inr []"
| "collect_rows fetch_soup (club # clubs) =
     (case fetch_club_squad fetch_soup club of
        Inl e \<Rightarrow> Inl e
      | Inr club_rows \<Rightarrow>
          (case collect_rows fetch_soup clubs of
             Inl e \<Rightarrow> Inl e
           | Inr all_rows \<Rightarrow> Inr (club_rows @ all_rows)))"

definition main ::
    "(pystr \<Rightarrow> node option) \<Rightarrow> (pystr \<rightharpoonup> pystr \<times> pystr) \<Rightarrow> (pystr \<Rightarrow> pystr \<times> pystr)
      \<Rightarrow> club_cfg list \<Rightarrow> py_error + player_row list" where
  "main fetch_soup known_players wikipedia clubs =
     (case collect_rows fetch_soup clubs of
        Inl e \<Rightarrow> Inl e
      | Inr all_rows \<Rightarrow> Inr (fill_missing_data known_players wikipedia all_rows))"

section \<open>Example pages\<close>

definition text_tag :: "string \<Rightarrow> string \<Rightarrow> node" where
  "text_tag n s = Tag (ustr n) [] None [NavigableString (ustr s)]"

text \<open>
  A table with a nationality header, as in the end-to-end scenario of the specification,
  and a table without one whose rows carry flag icons.
\<close>

definition ex_strict_header_row :: node where
  "ex_strict_header_row = Tag (ustr ''tr'') [] None
     [text_tag ''th'' ''No'', text_tag ''th'' ''Player'', text_tag ''th'' ''Pos'',
      text_tag ''th'' ''Nation'']"

definition ex_strict_row :: node where
  "ex_strict_row = Tag (ustr ''tr'') [] None
     [text_tag ''td'' ''10'', Tag (ustr ''td'') [] None [text_tag ''a'' ''J. Doe''],
      text_tag ''td'' ''MF'',
      Tag (ustr ''td'') [] None
        [Tag (ustr ''span'') [ustr ''flagicon''] None [text_tag ''a'' ''Spain'']]]"

definition ex_strict_table :: node where
  "ex_strict_table = Tag (ustr ''table'') [ustr ''wikitable''] None
     [ex_strict_header_row, ex_strict_row]"

definition ex_loose_header_row :: node where
  "ex_loose_header_row = Tag (ustr ''tr'') [] None
     [text_tag ''th'' ''No.'', text_tag ''th'' ''Player'', text_tag ''th'' ''Pos.'']"

definition ex_loose_row :: node where
  "ex_loose_row = Tag (ustr ''tr'') [] None
     [text_tag ''td'' ''7'',
      Tag (ustr ''td'') [] None
        [Tag (ustr ''span'') [ustr ''flagicon''] None
           [Tag (ustr ''img'') [] (Some (ustr ''France'')) []],
         text_tag ''a'' ''A. Player''],
      text_tag ''td'' ''FW'']"

definition ex_loose_table :: node where
  "ex_loose_table = Tag (ustr ''table'') [ustr ''wikitable''] None
     [ex_loose_header_row, ex_loose_row]"


text \<open>
  A header row with a notes column, and a table whose first column carries no header
  and holds a number in its first data row and a word in its second.
\<close>

definition ex_headers :: "pystr list" where
  "ex_headers = [ustr ''no.'', ustr ''player'', ustr ''pos.'', ustr ''nation'', ustr ''notes'']"

definition ex_mixed_header_row :: node where
  "ex_mixed_header_row = Tag (ustr ''tr'') [] None
     [text_tag ''th'' ''Player'', text_tag ''th'' ''Pos.'', text_tag ''th'' ''Nation'']"

definition ex_mixed_table :: node where
  "ex_mixed_table = Tag (ustr ''table'') [ustr ''wikitable''] None
     [ex_mixed_header_row,
      Tag (ustr ''tr'') [] None
        [text_tag ''td'' ''7'', text_tag ''td'' ''A. One'', text_tag ''td'' ''GK'',
         text_tag ''td'' ''Spain''],
      Tag (ustr ''tr'') [] None
        [text_tag ''td'' ''Staff'', text_tag ''td'' ''B. Two'', text_tag ''td'' ''Coach'',
         text_tag ''td'' ''France'']]"

text \<open>
  A row for the columns of \<open>ex_strict_table\<close> whose nationality cell holds a flag image
  and no hyperlink.
\<close>

definition ex_flag_cell :: node where
  "ex_flag_cell = Tag (ustr ''td'') [] None
     [Tag (ustr ''span'') [ustr ''flagicon''] None
        [Tag (ustr ''img'') [] (Some (ustr ''Spain'')) []]]"

definition ex_flag_row :: node where
  "ex_flag_row = Tag (ustr ''tr'') [] None
     [text_tag ''td'' ''9'', Tag (ustr ''td'') [] None [text_tag ''a'' ''K. Roe''],
      text_tag ''td'' ''FW'', ex_flag_cell]"

text \<open>
  The records that the parser builds for the rows above, and a row that is shorter than
  the header row of \<open>ex_loose_table\<close>.
\<close>

definition ex_strict_record :: player_row where
  "ex_strict_record = \<lparr>Name = ustr ''J. Doe'', Team = ustr ''Club'', Country = ustr ''ESP'',
     Position = ustr ''MF'', League = ustr ''League'', Shirt_Number = ustr ''10''\<rparr>"

definition ex_flag_record :: player_row where
  "ex_flag_record = \<lparr>Name = ustr ''K. Roe'', Team = ustr ''Club'', Country = [],
     Position = ustr ''FW'', League = ustr ''League'', Shirt_Number = ustr ''9''\<rparr>"

definition ex_loose_record :: player_row where
  "ex_loose_record = \<lparr>Name = ustr ''A. Player'', Team = ustr ''Club'', Country = ustr ''FRA'',
     Position = ustr ''FW'', League = ustr ''League'', Shirt_Number = ustr ''7''\<rparr>"

definition ex_short_row :: node where
  "ex_short_row = Tag (ustr ''tr'') [] None
     [text_tag ''td'' ''8'', Tag (ustr ''td'') [] None [text_tag ''a'' ''B. Short'']]"

definition ex_short_record :: player_row where
  "ex_short_record = \<lparr>Name = ustr ''B. Short'', Team = ustr ''Club'', Country = [],
     Position = [], League = ustr ''League'', Shirt_Number = ustr ''8''\<rparr>"

text \<open>
  Two pages for one club: the first holds a table of two players, the second a table of
  one, and \<open>ex_fetch_soup\<close> serves them under the addresses \<open>url1\<close> and \<open>url2\<close>.
\<close>

definition ex_two_page :: node where
  "ex_two_page = Tag (ustr ''[document]'') [] None
     [Tag (ustr ''table'') [ustr ''wikitable''] None
        [ex_strict_header_row, ex_strict_row, ex_flag_row]]"

definition ex_one_page :: node where
  "ex_one_page = Tag (ustr ''[document]'') [] None [ex_strict_table]"

definition ex_fetch_soup :: "pystr \<Rightarrow> node option" where
  "ex_fetch_soup url =
     (if url = ustr ''url1'' then Some ex_two_page
      else if url = ustr ''url2'' then Some ex_one_page
      else None)"

definition ex_club :: club_cfg where
  "ex_club = \<lparr>team = ustr ''Club'', league = ustr ''League'',
               urls = [ustr ''url1'', ustr ''url2'']\<rparr>"

text \<open>
  One entry of the table of known players, a search that finds nothing, and two rows:
  a player with a country and no number, and a header leftover.
\<close>

definition ex_known_players :: "pystr \<rightharpoonup> pystr \<times> pystr" where
  "ex_known_players = map_of [(ustr ''Pedro Porro'', (ustr ''ESP'', ustr ''23''))]"

definition ex_wikipedia :: "pystr \<Rightarrow> pystr \<times> pystr" where
  "ex_wikipedia n = ([], [])"

definition ex_porro_row :: player_row where
  "ex_porro_row = \<lparr>Name = ustr ''Pedro Porro'', Team = ustr ''Tottenham Hotspur'',
     Country = ustr ''Spain (youth)'', Position = ustr ''DF'', League = ustr ''Premier League'',
     Shirt_Number = []\<rparr>"

definition ex_apps_row :: player_row where
  "ex_apps_row = \<lparr>Name = ustr ''Apps'', Team = ustr ''Tottenham Hotspur'',
     Country = [], Position = [], League = ustr ''Premier League'', Shirt_Number = []\<rparr>"

text \<open>
  Two number cells with the superscript two U+00B2, which \<open>str.isdigit\<close> accepts and
  \<open>\d\<close> does not match: the cell \<open>\<^sup>2\<close> and the cell \<open>x\<^sup>2\<close>.
\<close>

definition ex_superscript_cell :: node where
  "ex_superscript_cell = Tag (ustr ''td'') [] None [NavigableString [178]]"

definition ex_x_superscript_cell :: node where
  "ex_x_superscript_cell = Tag (ustr ''td'') [] None [NavigableString [120, 178]]"

text \<open>
  A row for the columns of \<open>ex_strict_table\<close> with an empty number cell, and the record
  the parser builds for it.
\<close>

definition ex_porro_tr :: node where
  "ex_porro_tr = Tag (ustr ''tr'') [] None
     [Tag (ustr ''td'') [] None [], Tag (ustr ''td'') [] None [text_tag ''a'' ''Pedro Porro''],
      text_tag ''td'' ''DF'', Tag (ustr ''td'') [] None [text_tag ''a'' ''Portugal'']]"

definition ex_porro_record :: player_row where
  "ex_porro_record = \<lparr>Name = ustr ''Pedro Porro'', Team = ustr ''Club'', Country = ustr ''POR'',
     Position = ustr ''DF'', League = ustr ''League'', Shirt_Number = []\<rparr>"

section \<open>Table selection\<close>






section \<open>Table classifier\<close>

text \<open>
  C5. A table that passes the strict classification (\<open>require_country=True\<close>) passes the
  loose one (\<open>require_country=False\<close>).
\<close>

theorem classifier_monotone:
  "is_player_table table True \<Longrightarrow> is_player_table table False"
  by (simp add: is_player_table_def Let_def split: if_splits)

theorem classifier_monotone_witness:
  "is_player_table ex_strict_table True \<and> is_player_table ex_strict_table False"
proof -
  have strict: "is_player_table ex_strict_table True"
    by code_simp
  from classifier_monotone[OF strict] strict show ?thesis by simp
qed

section \<open>Column inference\<close>

lemma assign_columns_snoc:
  "assign_columns k (hs @ [h]) c = assign_step (k + length hs) h (assign_columns k hs c)"
  by (induction hs arbitrary: k c) simp_all

lemma role_column_step:
  "role_column r (assign_step idx h c) =
     (if header_role h = Some r then Some idx else role_column r c)"
  by (cases r) (auto simp: assign_step_def header_role_def)

lemma role_column_no_columns: "role_column r no_columns = None"
  by (cases r) (simp_all add: no_columns_def)

text \<open>After the loop a role holds the index of the last header that took its branch.\<close>

lemma role_column_last:
  "role_column r (assign_columns 0 hs no_columns) = Some i \<longleftrightarrow>
     i < length hs \<and> header_role (hs ! i) = Some r
       \<and> (\<forall>j. i < j \<and> j < length hs \<longrightarrow> header_role (hs ! j) \<noteq> Some r)"
proof (induction hs arbitrary: i rule: rev_induct)
  case Nil
  then show ?case by (simp add: role_column_no_columns)
next
  case (snoc h hs)
  show ?case
  proof (cases "header_role h = Some r")
    case True
    have "role_column r (assign_columns 0 (hs @ [h]) no_columns) = Some (length hs)"
      using True by (simp add: assign_columns_snoc role_column_step)
    moreover have "(i < length (hs @ [h]) \<and> header_role ((hs @ [h]) ! i) = Some r
       \<and> (\<forall>j. i < j \<and> j < length (hs @ [h]) \<longrightarrow> header_role ((hs @ [h]) ! j) \<noteq> Some r))
       \<longleftrightarrow> i = length hs"
    proof
      assume a: "i < length (hs @ [h]) \<and> header_role ((hs @ [h]) ! i) = Some r
       \<and> (\<forall>j. i < j \<and> j < length (hs @ [h]) \<longrightarrow> header_role ((hs @ [h]) ! j) \<noteq> Some r)"
      show "i = length hs"
      proof (rule ccontr)
        assume "i \<noteq> length hs"
        with a have "i < length hs" by simp
        moreover from a have "i < length hs \<and> length hs < length (hs @ [h])
            \<longrightarrow> header_role ((hs @ [h]) ! length hs) \<noteq> Some r"
          by blast
        ultimately have "header_role ((hs @ [h]) ! length hs) \<noteq> Some r" by simp
        with True show False by simp
      qed
    next
      assume "i = length hs"
      with True show "i < length (hs @ [h]) \<and> header_role ((hs @ [h]) ! i) = Some r
       \<and> (\<forall>j. i < j \<and> j < length (hs @ [h]) \<longrightarrow> header_role ((hs @ [h]) ! j) \<noteq> Some r)"
        by auto
    qed
    ultimately show ?thesis by auto
  next
    case False
    have eq: "role_column r (assign_columns 0 (hs @ [h]) no_columns)
        = role_column r (assign_columns 0 hs no_columns)"
      using False by (simp add: assign_columns_snoc role_column_step)
    have "(i < length (hs @ [h]) \<and> header_role ((hs @ [h]) ! i) = Some r
       \<and> (\<forall>j. i < j \<and> j < length (hs @ [h]) \<longrightarrow> header_role ((hs @ [h]) ! j) \<noteq> Some r))
       \<longleftrightarrow> (i < length hs \<and> header_role (hs ! i) = Some r
       \<and> (\<forall>j. i < j \<and> j < length hs \<longrightarrow> header_role (hs ! j) \<noteq> Some r))"
      using False by (auto simp: nth_append less_Suc_eq)
    with eq snoc.IH show ?thesis by simp
  qed
qed

lemma role_column_none:
  "role_column r (assign_columns 0 hs no_columns) = None \<longleftrightarrow>
     (\<forall>j<length hs. header_role (hs ! j) \<noteq> Some r)"
proof (induction hs rule: rev_induct)
  case Nil
  then show ?case by (simp add: role_column_no_columns)
next
  case (snoc h hs)
  show ?case
  proof (cases "header_role h = Some r")
    case True
    then show ?thesis
      by (auto simp: assign_columns_snoc role_column_step)
  next
    case False
    with snoc show ?thesis
      by (auto simp: assign_columns_snoc role_column_step nth_append less_Suc_eq)
  qed
qed

lemma position_not_number:
  "sublist (ustr ''position'') h \<Longrightarrow> header_role h \<noteq> Some RoleShirtNumber"
  by (simp add: header_role_def is_pos_header_def)

text \<open>
  C2, as the claim states it, fails: in the header row \<open>no., player, pos., nation, notes\<close>
  the first header that matches the shirt-number tokens is \<open>no.\<close> at index 0, and
  the loop assigns index 4, the header \<open>notes\<close>.
\<close>

theorem first_match_counterexample:
  "header_role (ex_headers ! 0) = Some RoleShirtNumber
     \<and> col_number (assign_columns 0 ex_headers no_columns) = Some 4"
  by code_simp

text \<open>
  C2, amended. Every header takes the branch of the first role, in the order Name,
  Position, Nationality, ShirtNumber, whose tokens it matches, and after the loop each
  role holds the index of the last header that took its branch, or none when no header
  did. A header that contains \<open>position\<close> never takes the ShirtNumber branch.
\<close>

theorem column_inference_last_match:
  "(role_column r (assign_columns 0 hs no_columns) = Some i \<longleftrightarrow>
      i < length hs \<and> header_role (hs ! i) = Some r
        \<and> (\<forall>j. i < j \<and> j < length hs \<longrightarrow> header_role (hs ! j) \<noteq> Some r))
   \<and> (role_column r (assign_columns 0 hs no_columns) = None \<longleftrightarrow>
        (\<forall>j<length hs. header_role (hs ! j) \<noteq> Some r))
   \<and> (col_number (assign_columns 0 hs no_columns) = Some i \<longrightarrow>
        \<not> sublist (ustr ''position'') (hs ! i))"
proof -
  have "col_number (assign_columns 0 hs no_columns) = Some i \<longrightarrow>
        \<not> sublist (ustr ''position'') (hs ! i)"
    using role_column_last[of RoleShirtNumber hs i] position_not_number[of "hs ! i"]
    by auto
  then show ?thesis
    using role_column_last[of r hs i] role_column_none[of r hs] by blast
qed

theorem column_inference_last_match_witness:
  "col_number (assign_columns 0 ex_headers no_columns) = Some 4
     \<and> header_role (ex_headers ! 4) = Some RoleShirtNumber
     \<and> header_role (ex_headers ! 0) = Some RoleShirtNumber
     \<and> \<not> sublist (ustr ''position'') (ex_headers ! 4)"
proof -
  have a: "role_column RoleShirtNumber (assign_columns 0 ex_headers no_columns) = Some 4"
    by code_simp
  have b: "header_role (ex_headers ! 0) = Some RoleShirtNumber"
    by code_simp
  from a b column_inference_last_match[of RoleShirtNumber ex_headers 4]
  show ?thesis by simp
qed

text \<open>
  C3. The table \<open>ex_mixed_table\<close> has no shirt-number header; the first cells of its
  two data rows read \<open>7\<close> and \<open>Staff\<close>. Only the first of the sampled cells is
  tested, so column 0 becomes the shirt-number column and the player column moves from
  0 to 1, although the second sampled value is neither numeric nor empty.
\<close>

theorem implicit_number_first_cell_only:
  "find_first [ustr ''tr''] ex_mixed_table = Some ex_mixed_header_row
     \<and> col_number (assign_columns 0 (header_texts ex_mixed_header_row) no_columns) = None
     \<and> map (get_text []) (first_cells ex_mixed_table) = [ustr ''7'', ustr ''Staff'']
     \<and> col_number (table_columns ex_mixed_table ex_mixed_header_row) = Some 0
     \<and> col_player (table_columns ex_mixed_table ex_mixed_header_row) = Some 1"
  by code_simp

section \<open>Row normalizer\<close>

lemma findall_digits_first:
  "(case findall_digits s of [] \<Rightarrow> [] | n # _ \<Rightarrow> n)
     = takeWhile isdecimal_char (dropWhile (\<lambda>c. \<not> isdecimal_char c) s)"
proof (cases "dropWhile (\<lambda>c. \<not> isdecimal_char c) s")
  case Nil
  show ?thesis unfolding findall_digits.simps[of s] Nil by simp
next
  case (Cons d ds)
  show ?thesis unfolding findall_digits.simps[of s] Cons by simp
qed

lemma first_run_split:
  assumes "\<exists>c\<in>set s. isdecimal_char c"
  defines "run \<equiv> takeWhile isdecimal_char (dropWhile (\<lambda>c. \<not> isdecimal_char c) s)"
  shows "\<exists>pre post. s = pre @ run @ post \<and> (\<forall>c\<in>set pre. \<not> isdecimal_char c) \<and> run \<noteq> []
           \<and> (\<forall>c\<in>set run. isdecimal_char c) \<and> (post = [] \<or> \<not> isdecimal_char (hd post))"
proof -
  let ?d = "dropWhile (\<lambda>c. \<not> isdecimal_char c) s"
  let ?pre = "takeWhile (\<lambda>c. \<not> isdecimal_char c) s"
  let ?post = "dropWhile isdecimal_char ?d"
  have s: "s = ?pre @ run @ ?post"
    by (simp add: run_def)
  have pre: "\<forall>c\<in>set ?pre. \<not> isdecimal_char c"
    by (auto dest: set_takeWhileD)
  from assms(1) have d: "?d \<noteq> []"
    by (simp add: dropWhile_eq_Nil_conv)
  then have "isdecimal_char (hd ?d)"
    using hd_dropWhile[of "\<lambda>c. \<not> isdecimal_char c" s] by simp
  with d have run: "run \<noteq> []"
    by (cases ?d) (auto simp: run_def)
  have digits: "\<forall>c\<in>set run. isdecimal_char c"
    by (auto simp: run_def dest: set_takeWhileD)
  have post: "?post = [] \<or> \<not> isdecimal_char (hd ?post)"
    using hd_dropWhile[of isdecimal_char ?d] by blast
  from s pre run digits post show ?thesis by blast
qed

lemma no_digit_run:
  "(\<forall>c\<in>set s. \<not> isdecimal_char c) \<Longrightarrow>
   takeWhile isdecimal_char (dropWhile (\<lambda>c. \<not> isdecimal_char c) s) = []"
  by (induction s) auto

text \<open>
  C6, as the claim states it, fails on digits that are not decimal digits. The
  superscript two U+00B2 is a digit for \<open>str.isdigit\<close> and is not matched by \<open>\d\<close>. The
  cell that holds it alone is kept as it is, so the result is not empty although the
  cell has no decimal digit; the cell \<open>x\<^sup>2\<close> gives the empty string, although for
  \<open>str.isdigit\<close> its first run of digits is the superscript. Whichever of the two
  counts as a digit, one of the cells contradicts the claim.
\<close>

theorem superscript_digit_counterexample:
  "isdigit [178] \<and> \<not> isdecimal_char 178
     \<and> get_text (ustr '' '') ex_superscript_cell = [178]
     \<and> cell_shirt_number (Some ex_superscript_cell) = [178]
     \<and> get_text (ustr '' '') ex_x_superscript_cell = [120, 178]
     \<and> cell_shirt_number (Some ex_x_superscript_cell) = []"
  by code_simp

text \<open>
  C6, amended. Let \<open>s\<close> be the trimmed text of the number cell. If \<open>s\<close> without \<open>-\<close> and
  \<open>/\<close> is not empty and consists of code points that \<open>str.isdigit\<close> accepts, the shirt
  number is \<open>s\<close>. Otherwise the shirt number is the first run of decimal digits of \<open>s\<close>,
  the code points that \<open>\d\<close> matches: only other code points come before it, and the
  text ends or goes on with another code point after it; it is empty when \<open>s\<close> has no
  decimal digit. So \<open>9/10\<close> is kept, \<open>No. 7\<close> gives \<open>7\<close> and the dash U+2014 gives the
  empty string.
\<close>

theorem shirt_number_cleaning:
  fixes cell :: node
  defines "s \<equiv> get_text (ustr '' '') cell"
  shows "(isdigit (remove_char 47 (remove_char 45 s)) \<longrightarrow> cell_shirt_number (Some cell) = s)
    \<and> (\<not> isdigit (remove_char 47 (remove_char 45 s)) \<and> (\<exists>c\<in>set s. isdecimal_char c) \<longrightarrow>
         (\<exists>pre post. s = pre @ cell_shirt_number (Some cell) @ post
            \<and> (\<forall>c\<in>set pre. \<not> isdecimal_char c)
            \<and> cell_shirt_number (Some cell) \<noteq> []
            \<and> (\<forall>c\<in>set (cell_shirt_number (Some cell)). isdecimal_char c)
            \<and> (post = [] \<or> \<not> isdecimal_char (hd post))))
    \<and> (\<not> isdigit (remove_char 47 (remove_char 45 s)) \<and> (\<forall>c\<in>set s. \<not> isdecimal_char c) \<longrightarrow>
         cell_shirt_number (Some cell) = [])
    \<and> clean_shirt_number (ustr ''9/10'') = ustr ''9/10''
    \<and> clean_shirt_number (ustr ''No. 7'') = ustr ''7''
    \<and> clean_shirt_number [8212] = []"
proof -
  let ?raw = "remove_char 47 (remove_char 45 s)"
  have keep: "isdigit ?raw \<Longrightarrow> cell_shirt_number (Some cell) = s"
    by (simp add: cell_shirt_number_def clean_shirt_number_def s_def)
  have run: "\<not> isdigit ?raw \<Longrightarrow> cell_shirt_number (Some cell)
      = takeWhile isdecimal_char (dropWhile (\<lambda>c. \<not> isdecimal_char c) s)"
    using findall_digits_first[of s]
    by (cases "s = []") (simp_all add: cell_shirt_number_def clean_shirt_number_def s_def)
  have none: "\<not> isdigit ?raw \<and> (\<forall>c\<in>set s. \<not> isdecimal_char c) \<Longrightarrow>
      cell_shirt_number (Some cell) = []"
    using run no_digit_run[of s] by simp
  have runs: "\<not> isdigit ?raw \<and> (\<exists>c\<in>set s. isdecimal_char c) \<Longrightarrow>
      \<exists>pre post. s = pre @ cell_shirt_number (Some cell) @ post
            \<and> (\<forall>c\<in>set pre. \<not> isdecimal_char c)
            \<and> cell_shirt_number (Some cell) \<noteq> []
            \<and> (\<forall>c\<in>set (cell_shirt_number (Some cell)). isdecimal_char c)
            \<and> (post = [] \<or> \<not> isdecimal_char (hd post))"
    using run first_run_split[of s] by auto
  have examples: "clean_shirt_number (ustr ''9/10'') = ustr ''9/10''
    \<and> clean_shirt_number (ustr ''No. 7'') = ustr ''7''
    \<and> clean_shirt_number [8212] = []"
    by code_simp
  from keep runs none examples show ?thesis by blast
qed

theorem shirt_number_cleaning_witness:
  "cell_shirt_number (Some (text_tag ''td'' '' 12-15 '')) = ustr ''12-15''
     \<and> cell_shirt_number (Some (text_tag ''td'' ''No. 7'')) \<noteq> []
     \<and> cell_shirt_number (Some (text_tag ''td'' ''n/a'')) = []"
proof -
  have t1: "get_text (ustr '' '') (text_tag ''td'' '' 12-15 '') = ustr ''12-15''"
    by code_simp
  have h1: "isdigit (remove_char 47 (remove_char 45 (ustr ''12-15'')))"
    by code_simp
  have t2: "get_text (ustr '' '') (text_tag ''td'' ''No. 7'') = ustr ''No. 7''"
    by code_simp
  have h2: "\<not> isdigit (remove_char 47 (remove_char 45 (ustr ''No. 7'')))
      \<and> (\<exists>c\<in>set (ustr ''No. 7''). isdecimal_char c)"
    by code_simp
  have t3: "get_text (ustr '' '') (text_tag ''td'' ''n/a'') = ustr ''n/a''"
    by code_simp
  have h3: "\<not> isdigit (remove_char 47 (remove_char 45 (ustr ''n/a'')))
      \<and> (\<forall>c\<in>set (ustr ''n/a''). \<not> isdecimal_char c)"
    by code_simp
  from shirt_number_cleaning[of "text_tag ''td'' '' 12-15 ''"] t1 h1
  have a: "cell_shirt_number (Some (text_tag ''td'' '' 12-15 '')) = ustr ''12-15''"
    by simp
  from shirt_number_cleaning[of "text_tag ''td'' ''No. 7''"] t2 h2
  have b: "cell_shirt_number (Some (text_tag ''td'' ''No. 7'')) \<noteq> []"
    by auto
  from shirt_number_cleaning[of "text_tag ''td'' ''n/a''"] t3 h3
  have c: "cell_shirt_number (Some (text_tag ''td'' ''n/a'')) = []"
    by simp
  from a b c show ?thesis by simp
qed

lemma get_cell_lookup: "get_cell cells idx = Inr (lookup_cell cells idx)"
  by (simp add: get_cell_def lookup_cell_def getitem_def split: option.splits)

lemma lookup_cell_out_of_range: "out_of_range idx cells \<Longrightarrow> lookup_cell cells idx = None"
  by (auto simp: out_of_range_def lookup_cell_def split: option.splits)

lemma lookup_cell_in_range:
  "idx = Some i \<Longrightarrow> i < length cells \<Longrightarrow> lookup_cell cells idx = Some (cells ! i)"
  by (simp add: lookup_cell_def)

lemma lookup_cell_Some:
  "lookup_cell cells idx = Some cell \<Longrightarrow> \<exists>i. idx = Some i \<and> i < length cells \<and> cell = cells ! i"
  by (auto simp: lookup_cell_def split: option.splits if_splits)

text \<open>No lookup raises, so a row is parsed as follows.\<close>

lemma parse_row_eq:
  "parse_row c tm lg tr =
     Inr (let cells = find_all [ustr ''td'', ustr ''th''] tr
          in if length cells < 2 \<or> cell_name (lookup_cell cells (col_player c)) = [] then None
             else Some \<lparr>Name = cell_name (lookup_cell cells (col_player c)), Team = tm,
                        Country = normalize_country
                          (cell_country (lookup_cell cells (col_nat c))
                             (lookup_cell cells (col_player c))),
                        Position = cell_position (lookup_cell cells (col_pos c)), League = lg,
                        Shirt_Number = cell_shirt_number (lookup_cell cells (col_number c))\<rparr>)"
  by (simp add: parse_row_def get_cell_lookup Let_def)

lemma parse_row_Some:
  assumes "parse_row c tm lg tr = Inr (Some r)"
  defines "cells \<equiv> find_all [ustr ''td'', ustr ''th''] tr"
  shows "2 \<le> length cells"
    and "Name r = cell_name (lookup_cell cells (col_player c))"
    and "Name r \<noteq> []"
    and "Country r = normalize_country
           (cell_country (lookup_cell cells (col_nat c)) (lookup_cell cells (col_player c)))"
    and "Position r = cell_position (lookup_cell cells (col_pos c))"
    and "Shirt_Number r = cell_shirt_number (lookup_cell cells (col_number c))"
    and "Team r = tm" and "League r = lg"
  using assms(1) unfolding parse_row_eq cells_def Let_def
  by (auto split: if_splits)

lemma parse_row_player_cell:
  assumes "parse_row c tm lg tr = Inr (Some r)"
  shows "\<exists>p. col_player c = Some p \<and> p < length (find_all [ustr ''td'', ustr ''th''] tr)
           \<and> lookup_cell (find_all [ustr ''td'', ustr ''th''] tr) (col_player c)
               = Some (find_all [ustr ''td'', ustr ''th''] tr ! p)"
proof -
  let ?cells = "find_all [ustr ''td'', ustr ''th''] tr"
  from parse_row_Some(2,3)[OF assms] have "cell_name (lookup_cell ?cells (col_player c)) \<noteq> []"
    by simp
  then obtain cell where "lookup_cell ?cells (col_player c) = Some cell"
    by (cases "lookup_cell ?cells (col_player c)") (auto simp: cell_name_def)
  then show ?thesis
    using lookup_cell_Some[of ?cells "col_player c" cell] by auto
qed

text \<open>
  C7, amended. For every row that yields a record: when the nationality column is
  assigned and the row has a cell at its index, the country is the text of the last
  hyperlink of that cell, and the joined text of the cell when the cell has no
  hyperlink; when no nationality column is assigned or the row is too short to have
  that cell, the country is read from the flag marker of the name cell. The record holds
  the country after \<open>normalize_country\<close>.
\<close>

theorem nationality_cascade:
  assumes "parse_row c tm lg tr = Inr (Some r)"
  defines "cells \<equiv> find_all [ustr ''td'', ustr ''th''] tr"
  shows "(\<forall>i. col_nat c = Some i \<and> i < length cells \<longrightarrow>
            (find_all [ustr ''a''] (cells ! i) \<noteq> [] \<longrightarrow>
               Country r = normalize_country
                 (get_text [] (last (find_all [ustr ''a''] (cells ! i)))))
          \<and> (find_all [ustr ''a''] (cells ! i) = [] \<longrightarrow>
               Country r = normalize_country (get_text (ustr '' '') (cells ! i))))
       \<and> (out_of_range (col_nat c) cells \<longrightarrow>
            (\<exists>p. col_player c = Some p \<and> p < length cells
               \<and> Country r = normalize_country (extract_country_from_cell (Some (cells ! p)))))"
proof -
  have country: "Country r = normalize_country
      (cell_country (lookup_cell cells (col_nat c)) (lookup_cell cells (col_player c)))"
    using parse_row_Some(4)[OF assms(1)] by (simp add: cells_def)
  have present: "col_nat c = Some i \<and> i < length cells \<longrightarrow>
            (find_all [ustr ''a''] (cells ! i) \<noteq> [] \<longrightarrow>
               Country r = normalize_country
                 (get_text [] (last (find_all [ustr ''a''] (cells ! i)))))
          \<and> (find_all [ustr ''a''] (cells ! i) = [] \<longrightarrow>
               Country r = normalize_country (get_text (ustr '' '') (cells ! i)))" for i
    using country
    by (auto simp: lookup_cell_in_range cell_country_def split: list.splits)
  have absent: "out_of_range (col_nat c) cells \<longrightarrow>
            (\<exists>p. col_player c = Some p \<and> p < length cells
               \<and> Country r = normalize_country (extract_country_from_cell (Some (cells ! p))))"
    using country parse_row_player_cell[OF assms(1)]
    by (auto simp: lookup_cell_out_of_range cell_country_def cells_def)
  from present absent show ?thesis by blast
qed

theorem nationality_cascade_witness:
  "Country ex_strict_record
     = normalize_country (get_text []
         (last (find_all [ustr ''a''] (find_all [ustr ''td'', ustr ''th''] ex_strict_row ! 3))))
   \<and> Country ex_flag_record
     = normalize_country (get_text (ustr '' '') (find_all [ustr ''td'', ustr ''th''] ex_flag_row ! 3))
   \<and> (\<exists>p. col_player (table_columns ex_loose_table ex_loose_header_row) = Some p
        \<and> Country ex_loose_record = normalize_country (extract_country_from_cell
             (Some (find_all [ustr ''td'', ustr ''th''] ex_loose_row ! p))))"
proof -
  have p1: "parse_row (table_columns ex_strict_table ex_strict_header_row) (ustr ''Club'')
      (ustr ''League'') ex_strict_row = Inr (Some ex_strict_record)"
    by code_simp
  have c1: "col_nat (table_columns ex_strict_table ex_strict_header_row) = Some 3
      \<and> 3 < length (find_all [ustr ''td'', ustr ''th''] ex_strict_row)
      \<and> find_all [ustr ''a''] (find_all [ustr ''td'', ustr ''th''] ex_strict_row ! 3) \<noteq> []"
    by code_simp
  have p2: "parse_row (table_columns ex_strict_table ex_strict_header_row) (ustr ''Club'')
      (ustr ''League'') ex_flag_row = Inr (Some ex_flag_record)"
    by code_simp
  have c2: "3 < length (find_all [ustr ''td'', ustr ''th''] ex_flag_row)
      \<and> find_all [ustr ''a''] (find_all [ustr ''td'', ustr ''th''] ex_flag_row ! 3) = []"
    by code_simp
  have p3: "parse_row (table_columns ex_loose_table ex_loose_header_row) (ustr ''Club'')
      (ustr ''League'') ex_loose_row = Inr (Some ex_loose_record)"
    by code_simp
  have c3: "out_of_range (col_nat (table_columns ex_loose_table ex_loose_header_row))
      (find_all [ustr ''td'', ustr ''th''] ex_loose_row)"
    by code_simp
  from nationality_cascade[OF p1] c1 have a: "Country ex_strict_record
     = normalize_country (get_text []
         (last (find_all [ustr ''a''] (find_all [ustr ''td'', ustr ''th''] ex_strict_row ! 3))))"
    by blast
  from nationality_cascade[OF p2] c1 c2 have b: "Country ex_flag_record
     = normalize_country (get_text (ustr '' '') (find_all [ustr ''td'', ustr ''th''] ex_flag_row ! 3))"
    by blast
  from nationality_cascade[OF p3] c3 have c: "\<exists>p. col_player (table_columns ex_loose_table ex_loose_header_row) = Some p
        \<and> Country ex_loose_record = normalize_country (extract_country_from_cell
             (Some (find_all [ustr ''td'', ustr ''th''] ex_loose_row ! p)))"
    by blast
  from a b c show ?thesis by blast
qed

text \<open>
  C7, as the claim states it, fails: the nationality cell of \<open>ex_flag_row\<close> has no
  hyperlink and a flag marker whose image has the alt text \<open>Spain\<close>; the record gets
  the text of the cell, which is empty, and not the alt text.
\<close>

theorem nationality_flag_counterexample:
  "col_nat (table_columns ex_strict_table ex_strict_header_row) = Some 3
     \<and> find_all [ustr ''td'', ustr ''th''] ex_flag_row ! 3 = ex_flag_cell
     \<and> find_all [ustr ''a''] ex_flag_cell = []
     \<and> extract_country_from_cell (Some ex_flag_cell) = ustr ''Spain''
     \<and> parse_row (table_columns ex_strict_table ex_strict_header_row) (ustr ''Club'')
         (ustr ''League'') ex_flag_row = Inr (Some ex_flag_record)
     \<and> Country ex_flag_record = []"
  by code_simp

text \<open>
  C10, amended. Parsing a row never raises. A lookup whose index is absent or not below
  the number of cells of the row returns the empty value. Then the Position and the
  Shirt Number of the record are empty, a row whose name column is out of range yields no
  record, and the Country is what the flag marker of the name cell gives.
\<close>

theorem out_of_range_lookup:
  fixes tr :: node
  defines "cells \<equiv> find_all [ustr ''td'', ustr ''th''] tr"
  shows "(\<exists>res. parse_row c tm lg tr = Inr res)
    \<and> (out_of_range idx cs \<longrightarrow> get_cell cs idx = Inr None)
    \<and> (out_of_range (col_player c) cells \<longrightarrow> parse_row c tm lg tr = Inr None)
    \<and> (parse_row c tm lg tr = Inr (Some r) \<longrightarrow>
         (out_of_range (col_pos c) cells \<longrightarrow> Position r = [])
       \<and> (out_of_range (col_number c) cells \<longrightarrow> Shirt_Number r = [])
       \<and> (out_of_range (col_nat c) cells \<longrightarrow>
            (\<exists>p. col_player c = Some p \<and> p < length cells
               \<and> Country r = normalize_country (extract_country_from_cell (Some (cells ! p))))))"
proof -
  have total: "\<exists>res. parse_row c tm lg tr = Inr res"
    by (simp add: parse_row_eq)
  have empty: "out_of_range idx cs \<longrightarrow> get_cell cs idx = Inr None"
    by (simp add: get_cell_lookup lookup_cell_out_of_range)
  have skipped: "out_of_range (col_player c) cells \<longrightarrow> parse_row c tm lg tr = Inr None"
    by (simp add: parse_row_eq lookup_cell_out_of_range cell_name_def cells_def)
  have fields: "parse_row c tm lg tr = Inr (Some r) \<longrightarrow>
         (out_of_range (col_pos c) cells \<longrightarrow> Position r = [])
       \<and> (out_of_range (col_number c) cells \<longrightarrow> Shirt_Number r = [])
       \<and> (out_of_range (col_nat c) cells \<longrightarrow>
            (\<exists>p. col_player c = Some p \<and> p < length cells
               \<and> Country r = normalize_country (extract_country_from_cell (Some (cells ! p)))))"
  proof
    assume p: "parse_row c tm lg tr = Inr (Some r)"
    have pos: "out_of_range (col_pos c) cells \<longrightarrow> Position r = []"
      using parse_row_Some(5)[OF p]
      by (simp add: lookup_cell_out_of_range cell_position_def cells_def)
    have num: "out_of_range (col_number c) cells \<longrightarrow> Shirt_Number r = []"
      using parse_row_Some(6)[OF p]
      by (simp add: lookup_cell_out_of_range cell_shirt_number_def cells_def)
    have nat: "out_of_range (col_nat c) cells \<longrightarrow>
            (\<exists>p. col_player c = Some p \<and> p < length cells
               \<and> Country r = normalize_country (extract_country_from_cell (Some (cells ! p))))"
      using parse_row_Some(4)[OF p] parse_row_player_cell[OF p]
      by (auto simp: lookup_cell_out_of_range cell_country_def cells_def)
    from pos num nat show "(out_of_range (col_pos c) cells \<longrightarrow> Position r = [])
       \<and> (out_of_range (col_number c) cells \<longrightarrow> Shirt_Number r = [])
       \<and> (out_of_range (col_nat c) cells \<longrightarrow>
            (\<exists>p. col_player c = Some p \<and> p < length cells
               \<and> Country r = normalize_country (extract_country_from_cell (Some (cells ! p)))))"
      by blast
  qed
  from total empty skipped fields show ?thesis by blast
qed

theorem out_of_range_lookup_witness:
  "parse_row (table_columns ex_loose_table ex_loose_header_row) (ustr ''Club'') (ustr ''League'')
      ex_short_row = Inr (Some ex_short_record)
   \<and> Position ex_short_record = []
   \<and> get_cell (find_all [ustr ''td'', ustr ''th''] ex_short_row) (Some 2) = Inr None
   \<and> (\<exists>p. col_player (table_columns ex_loose_table ex_loose_header_row) = Some p
        \<and> Country ex_short_record = normalize_country (extract_country_from_cell
             (Some (find_all [ustr ''td'', ustr ''th''] ex_short_row ! p))))"
proof -
  have p: "parse_row (table_columns ex_loose_table ex_loose_header_row) (ustr ''Club'')
      (ustr ''League'') ex_short_row = Inr (Some ex_short_record)"
    by code_simp
  have r: "out_of_range (col_pos (table_columns ex_loose_table ex_loose_header_row))
        (find_all [ustr ''td'', ustr ''th''] ex_short_row)
      \<and> out_of_range (col_nat (table_columns ex_loose_table ex_loose_header_row))
        (find_all [ustr ''td'', ustr ''th''] ex_short_row)
      \<and> out_of_range (Some 2) (find_all [ustr ''td'', ustr ''th''] ex_short_row)"
    by code_simp
  from out_of_range_lookup[of "table_columns ex_loose_table ex_loose_header_row"
      "ustr ''Club''" "ustr ''League''" ex_short_row "Some 2"
      "find_all [ustr ''td'', ustr ''th''] ex_short_row" ex_short_record] p r
  show ?thesis by blast
qed

text \<open>
  C10, as the claim states it, fails for the Country field: \<open>ex_loose_table\<close> has no
  nationality column, and the record of its row has the country \<open>FRA\<close>, from the flag in
  the name cell.
\<close>

theorem out_of_range_country_counterexample:
  "col_nat (table_columns ex_loose_table ex_loose_header_row) = None
     \<and> parse_row (table_columns ex_loose_table ex_loose_header_row) (ustr ''Club'')
         (ustr ''League'') ex_loose_row = Inr (Some ex_loose_record)
     \<and> Country ex_loose_record = ustr ''FRA''"
  by code_simp

lemma parse_row_total: "\<exists>res. parse_row c tm lg tr = Inr res"
  by (simp add: parse_row_eq)

lemma parse_row_name:
  "parse_row c tm lg tr = Inr (Some r) \<Longrightarrow>
   2 \<le> length (find_all [ustr ''td'', ustr ''th''] tr) \<and> Name r \<noteq> []"
  unfolding parse_row_eq Let_def by (auto split: if_splits)

lemma parse_rows_total:
  "\<exists>rows. parse_rows c tm lg trs = Inr rows
     \<and> (\<forall>r\<in>set rows. \<exists>tr\<in>set trs. parse_row c tm lg tr = Inr (Some r))"
proof (induction trs)
  case Nil
  then show ?case by simp
next
  case (Cons tr trs)
  from parse_row_total obtain res where res: "parse_row c tm lg tr = Inr res" by blast
  from Cons obtain rows where rows: "parse_rows c tm lg trs = Inr rows"
    and mem: "\<forall>r\<in>set rows. \<exists>tr\<in>set trs. parse_row c tm lg tr = Inr (Some r)" by blast
  show ?case using res rows mem by (cases res) auto
qed

lemma parse_first_team_table_total:
  "\<exists>rows. parse_first_team_table table tm lg = Inr rows
     \<and> (\<forall>r\<in>set rows. \<exists>c tr. parse_row c tm lg tr = Inr (Some r))"
proof (cases table)
  case None
  then show ?thesis by (simp add: parse_first_team_table_def)
next
  case (Some t)
  show ?thesis
  proof (cases "find_first [ustr ''tr''] t")
    case None
    with Some show ?thesis by (simp add: parse_first_team_table_def)
  next
    case (Some header_row)
    from parse_rows_total[of "table_columns t header_row" tm lg "drop 1 (find_all [ustr ''tr''] t)"]
    obtain rows where "parse_rows (table_columns t header_row) tm lg
          (drop 1 (find_all [ustr ''tr''] t)) = Inr rows"
      and "\<forall>r\<in>set rows. \<exists>c tr. parse_row c tm lg tr = Inr (Some r)"
      by blast
    then show ?thesis using Some \<open>table = Some t\<close>
      by (simp add: parse_first_team_table_def)
  qed
qed

section \<open>Fetching a club\<close>

lemma try_urls_step:
  "try_urls fetch tm lg partial (url # rest) =
     (if url_rows fetch tm lg url \<noteq> [] then
        if length (url_rows fetch tm lg url) \<ge> MIN_PLAYER_THRESHOLD
        then Inr (url_rows fetch tm lg url)
        else try_urls fetch tm lg (url_rows fetch tm lg url) rest
      else try_urls fetch tm lg partial rest)"
proof (cases "fetch url")
  case None
  then show ?thesis by (simp add: url_rows_def)
next
  case (Some soup)
  show ?thesis
  proof (cases "find_first_team_table soup")
    case None
    with Some show ?thesis by (simp add: url_rows_def)
  next
    case (Some table)
    from parse_first_team_table_total[of "Some table" tm lg]
    obtain rows where "parse_first_team_table (Some table) tm lg = Inr rows" by blast
    with Some \<open>fetch url = Some soup\<close> show ?thesis by (simp add: url_rows_def)
  qed
qed

lemma try_urls_partial:
  "(\<forall>url\<in>set us. length (url_rows fetch tm lg url) < MIN_PLAYER_THRESHOLD) \<Longrightarrow>
   try_urls fetch tm lg partial us =
     Inr (last (partial # filter (\<lambda>rows. rows \<noteq> []) (map (url_rows fetch tm lg) us)))"
proof (induction us arbitrary: partial)
  case Nil
  then show ?case by simp
next
  case (Cons url us)
  then show ?case by (simp add: try_urls_step del: try_urls.simps)
qed

text \<open>
  C4, as the claim states it, fails: the first address yields two players and the second
  one player, both below the threshold, and the club gets the roster of one player.
\<close>

theorem best_partial_counterexample:
  "url_rows ex_fetch_soup (team ex_club) (league ex_club) (ustr ''url1'')
       = [ex_strict_record, ex_flag_record]
     \<and> url_rows ex_fetch_soup (team ex_club) (league ex_club) (ustr ''url2'') = [ex_strict_record]
     \<and> urls ex_club = [ustr ''url1'', ustr ''url2'']
     \<and> fetch_club_squad ex_fetch_soup ex_club = Inr [ex_strict_record]"
  by code_simp

text \<open>
  C4, amended. When every address of a club yields a roster below the threshold,
  \<open>fetch_club_squad\<close> returns the roster of the last address that yields a player, and the
  empty list when no address does.
\<close>

theorem last_partial_roster:
  assumes "\<forall>url\<in>set (urls club).
      length (url_rows fetch_soup (team club) (league club) url) < MIN_PLAYER_THRESHOLD"
  shows "fetch_club_squad fetch_soup club =
     Inr (last ([] # filter (\<lambda>rows. rows \<noteq> [])
                     (map (url_rows fetch_soup (team club) (league club)) (urls club))))"
  using try_urls_partial[OF assms, of "[]"] by (simp add: fetch_club_squad_def)

theorem last_partial_roster_witness:
  "length (url_rows ex_fetch_soup (team ex_club) (league ex_club) (ustr ''url1'')) = 2
   \<and> length (url_rows ex_fetch_soup (team ex_club) (league ex_club) (ustr ''url2'')) = 1
   \<and> fetch_club_squad ex_fetch_soup ex_club
       = Inr (url_rows ex_fetch_soup (team ex_club) (league ex_club) (ustr ''url2''))"
proof -
  have below: "\<forall>url\<in>set (urls ex_club).
      length (url_rows ex_fetch_soup (team ex_club) (league ex_club) url) < MIN_PLAYER_THRESHOLD"
    by code_simp
  have rosters:
    "length (url_rows ex_fetch_soup (team ex_club) (league ex_club) (ustr ''url1'')) = 2
     \<and> length (url_rows ex_fetch_soup (team ex_club) (league ex_club) (ustr ''url2'')) = 1"
    by code_simp
  have "last ([] # filter (\<lambda>rows. rows \<noteq> [])
          (map (url_rows ex_fetch_soup (team ex_club) (league ex_club)) (urls ex_club)))
      = url_rows ex_fetch_soup (team ex_club) (league ex_club) (ustr ''url2'')"
    by code_simp
  with last_partial_roster[OF below] rosters show ?thesis by simp
qed

section \<open>Row validator and enrichment\<close>

lemma length_strip: "length (strip s) \<le> length s"
proof -
  have "length (strip s) \<le> length (dropWhile isspace_char s)"
    using length_dropWhile_le[of isspace_char "rev (dropWhile isspace_char s)"]
    by (simp add: strip_def)
  also have "\<dots> \<le> length s" by (rule length_dropWhile_le)
  finally show ?thesis .
qed

lemma strip_id:
  assumes "s \<noteq> []" "\<not> isspace_char (hd s)" "\<not> isspace_char (last s)"
  shows "strip s = s"
proof -
  from assms(1,2) have a: "dropWhile isspace_char s = s" by (cases s) simp_all
  from assms(1,3) have b: "dropWhile isspace_char (rev s) = rev s"
    by (cases "rev s") (simp_all add: hd_rev[symmetric])
  from a b show ?thesis by (simp add: strip_def)
qed

lemma isspace_char_list: "isspace_char c \<longleftrightarrow> c \<in> set whitespace_chars"
  unfolding isspace_char_def whitespace_chars_def by (simp del: One_nat_def) presburger

lemma whitespace_lower: "\<forall>w\<in>set whitespace_chars. w \<noteq> 931 \<and> lower_char w = [w]"
  by code_simp

lemma lower_char_space: "isspace_char c \<Longrightarrow> c \<noteq> 931 \<and> lower_char c = [c]"
  using whitespace_lower by (simp add: isspace_char_list)

lemma lower_char_nonempty: "lower_char c \<noteq> []"
  by (auto simp: lower_char_def case_map_def lower_special_def split: option.splits prod.splits)

lemma lower_from_Nil: "lower_from b s = [] \<longleftrightarrow> s = []"
  by (cases s) (simp_all add: lower_char_nonempty)

lemma hd_lower: "s \<noteq> [] \<Longrightarrow> isspace_char (hd s) \<Longrightarrow> hd (lower s) = hd s"
  by (cases s) (simp_all add: lower_def lower_char_space)

lemma last_lower_from: "isspace_char c \<Longrightarrow> last (lower_from b (xs @ [c])) = c"
  by (induction xs arbitrary: b) (simp_all add: lower_char_space lower_from_Nil)

lemma invalid_names_edges:
  "\<forall>w\<in>set invalid_names. w \<noteq> [] \<and> \<not> isspace_char (hd w) \<and> \<not> isspace_char (last w)"
  by code_simp

lemma lower_invalid_strip:
  assumes "lower s \<in> set invalid_names"
  shows "strip s = s"
proof -
  from assms invalid_names_edges
  have w: "lower s \<noteq> []" "\<not> isspace_char (hd (lower s))" "\<not> isspace_char (last (lower s))"
    by blast+
  then have s: "s \<noteq> []" by (auto simp: lower_def)
  have h: "\<not> isspace_char (hd s)"
    using w(2) hd_lower[OF s] by auto
  have "\<not> isspace_char (last s)"
  proof
    assume sp: "isspace_char (last s)"
    from s have "s = butlast s @ [last s]" by simp
    then have "last (lower s) = last s"
      using last_lower_from[OF sp, of "[]" "butlast s"] by (simp add: lower_def)
    with w(3) sp show False by simp
  qed
  with s h show ?thesis by (rule strip_id)
qed

lemma valid_name:
  assumes "is_valid_player_row r"
  shows "2 \<le> length (Name r) \<and> lower (Name r) \<notin> set invalid_names"
proof -
  from assms have a: "lower (strip (Name r)) \<notin> set invalid_names"
    and b: "2 \<le> length (strip (Name r))"
    by (auto simp: is_valid_player_row_def Let_def split: if_splits)
  from b length_strip[of "Name r"] have len: "2 \<le> length (Name r)" by simp
  have "lower (Name r) \<notin> set invalid_names"
  proof
    assume c: "lower (Name r) \<in> set invalid_names"
    then have "strip (Name r) = Name r" by (rule lower_invalid_strip)
    with a c show False by simp
  qed
  with len show ?thesis by simp
qed

lemma fill_loop_fst:
  "fst (fill_loop search rows acc n) =
     acc @ map (\<lambda>r. fst (fill_row search r)) (filter is_valid_player_row rows)"
  by (induction rows arbitrary: acc n) (auto split: prod.splits)

lemma fill_missing_data_map:
  "fill_missing_data kp wiki rows =
     map (\<lambda>r. fst (fill_row (search_player_info kp wiki) r)) (filter is_valid_player_row rows)"
  by (simp add: fill_missing_data_def fill_loop_fst)

lemma fill_row_frame:
  "Name (fst (fill_row search r)) = Name r \<and> Team (fst (fill_row search r)) = Team r
     \<and> Position (fst (fill_row search r)) = Position r
     \<and> League (fst (fill_row search r)) = League r
     \<and> (strip (Country r) \<noteq> [] \<longrightarrow> Country (fst (fill_row search r)) = Country r)
     \<and> (strip (Shirt_Number r) \<noteq> [] \<longrightarrow>
          Shirt_Number (fst (fill_row search r)) = Shirt_Number r)"
  by (simp add: fill_row_def Let_def split: prod.splits)

text \<open>
  C8. Every record that \<open>fill_missing_data\<close> returns has a name of at least two
  characters whose lowercase form is not in the denylist. The parser emits no record
  with an empty name, every record it emits comes from a row of at least two cells, and a
  row of fewer than two cells yields none.
\<close>

theorem output_name_invariant:
  "(\<forall>r\<in>set (fill_missing_data known_players wikipedia rows).
      2 \<le> length (Name r) \<and> lower (Name r) \<notin> set invalid_names)
   \<and> (parse_first_team_table table tm lg = Inr parsed \<longrightarrow> (\<forall>r\<in>set parsed. Name r \<noteq> []))
   \<and> (parse_row c tm lg tr = Inr (Some r) \<longrightarrow>
        2 \<le> length (find_all [ustr ''td'', ustr ''th''] tr) \<and> Name r \<noteq> [])
   \<and> (length (find_all [ustr ''td'', ustr ''th''] tr) < 2 \<longrightarrow> parse_row c tm lg tr = Inr None)"
proof -
  have filled: "\<forall>r\<in>set (fill_missing_data known_players wikipedia rows).
      2 \<le> length (Name r) \<and> lower (Name r) \<notin> set invalid_names"
  proof
    fix r assume "r \<in> set (fill_missing_data known_players wikipedia rows)"
    then obtain r0 where r0: "is_valid_player_row r0"
      and r: "r = fst (fill_row (search_player_info known_players wikipedia) r0)"
      by (auto simp: fill_missing_data_map)
    from r fill_row_frame[of "search_player_info known_players wikipedia" r0]
    have "Name r = Name r0" by simp
    with valid_name[OF r0] show "2 \<le> length (Name r) \<and> lower (Name r) \<notin> set invalid_names"
      by simp
  qed
  have parsed: "parse_first_team_table table tm lg = Inr parsed \<longrightarrow>
      (\<forall>r\<in>set parsed. Name r \<noteq> [])"
    using parse_first_team_table_total[of table tm lg] parse_row_name by fastforce
  have row: "parse_row c tm lg tr = Inr (Some r) \<longrightarrow>
      2 \<le> length (find_all [ustr ''td'', ustr ''th''] tr) \<and> Name r \<noteq> []"
    using parse_row_name by blast
  have short: "length (find_all [ustr ''td'', ustr ''th''] tr) < 2 \<longrightarrow>
      parse_row c tm lg tr = Inr None"
    by (simp add: parse_row_eq)
  from filled parsed row short show ?thesis by blast
qed

theorem output_name_invariant_witness:
  "fill_missing_data ex_known_players ex_wikipedia [ex_apps_row, ex_porro_row]
       = [ex_porro_row\<lparr>Shirt_Number := ustr ''23''\<rparr>]
   \<and> 2 \<le> length (Name (ex_porro_row\<lparr>Shirt_Number := ustr ''23''\<rparr>))
   \<and> lower (Name (ex_porro_row\<lparr>Shirt_Number := ustr ''23''\<rparr>)) \<notin> set invalid_names
   \<and> 2 \<le> length (find_all [ustr ''td'', ustr ''th''] ex_strict_row)
   \<and> Name ex_strict_record \<noteq> []
   \<and> parse_row no_columns (ustr ''Club'') (ustr ''League'')
        (Tag (ustr ''tr'') [] None [text_tag ''td'' ''Total'']) = Inr None"
proof -
  have out: "fill_missing_data ex_known_players ex_wikipedia [ex_apps_row, ex_porro_row]
       = [ex_porro_row\<lparr>Shirt_Number := ustr ''23''\<rparr>]"
    by code_simp
  have row: "parse_row (table_columns ex_strict_table ex_strict_header_row) (ustr ''Club'')
      (ustr ''League'') ex_strict_row = Inr (Some ex_strict_record)"
    by code_simp
  have short: "length (find_all [ustr ''td'', ustr ''th'']
      (Tag (ustr ''tr'') [] None [text_tag ''td'' ''Total''])) < 2"
    by code_simp
  from output_name_invariant[of ex_known_players ex_wikipedia "[ex_apps_row, ex_porro_row]"
      None "ustr ''Club''" "ustr ''League''" "[]"
      "table_columns ex_strict_table ex_strict_header_row" ex_strict_row ex_strict_record]
    out row
  have a: "2 \<le> length (Name (ex_porro_row\<lparr>Shirt_Number := ustr ''23''\<rparr>))
   \<and> lower (Name (ex_porro_row\<lparr>Shirt_Number := ustr ''23''\<rparr>)) \<notin> set invalid_names
   \<and> 2 \<le> length (find_all [ustr ''td'', ustr ''th''] ex_strict_row)
   \<and> Name ex_strict_record \<noteq> []"
    by simp
  from output_name_invariant[of ex_known_players ex_wikipedia "[]"
      None "ustr ''Club''" "ustr ''League''" "[]" no_columns
      "Tag (ustr ''tr'') [] None [text_tag ''td'' ''Total'']" ex_strict_record] short
  have b: "parse_row no_columns (ustr ''Club'') (ustr ''League'')
        (Tag (ustr ''tr'') [] None [text_tag ''td'' ''Total'']) = Inr None"
    by blast
  from out a b show ?thesis by blast
qed

text \<open>The fields that the parser builds are empty or hold a code point that is no whitespace.\<close>

lemma strip_Nil_iff: "strip s = [] \<longleftrightarrow> (\<forall>c\<in>set s. isspace_char c)"
proof -
  have "(\<forall>x\<in>set (dropWhile isspace_char s). isspace_char x) \<longleftrightarrow> (\<forall>x\<in>set s. isspace_char x)"
  proof
    assume a: "\<forall>x\<in>set (dropWhile isspace_char s). isspace_char x"
    have "dropWhile isspace_char s = []"
    proof (rule ccontr)
      assume n: "dropWhile isspace_char s \<noteq> []"
      then have "\<not> isspace_char (hd (dropWhile isspace_char s))"
        by (rule hd_dropWhile)
      moreover from n have "hd (dropWhile isspace_char s) \<in> set (dropWhile isspace_char s)"
        by simp
      ultimately show False using a by blast
    qed
    then show "\<forall>x\<in>set s. isspace_char x"
      by (simp add: dropWhile_eq_Nil_conv)
  next
    assume "\<forall>x\<in>set s. isspace_char x"
    then show "\<forall>x\<in>set (dropWhile isspace_char s). isspace_char x"
      by (auto dest: set_dropWhileD)
  qed
  then show ?thesis
    by (simp add: strip_def dropWhile_eq_Nil_conv)
qed

lemma dropWhile_keeps: "c \<in> set xs \<Longrightarrow> \<not> P c \<Longrightarrow> c \<in> set (dropWhile P xs)"
  by (induction xs) auto

lemma strip_keeps: "c \<in> set s \<Longrightarrow> \<not> isspace_char c \<Longrightarrow> c \<in> set (strip s)"
  using dropWhile_keeps[of c "rev (dropWhile isspace_char s)" isspace_char]
    dropWhile_keeps[of c s isspace_char]
  by (simp add: strip_def)

lemma strip_nonblank: "strip a = [] \<or> (\<exists>c\<in>set (strip a). \<not> isspace_char c)"
  using strip_Nil_iff[of a] strip_keeps[of _ a] by blast

lemma join_Cons_set: "set p \<subseteq> set (join sep (p # ps))"
  by (cases ps) auto

lemma get_text_nonblank:
  "get_text sep t = [] \<or> (\<exists>c\<in>set (get_text sep t). \<not> isspace_char c)"
proof (cases "filter (\<lambda>s. s \<noteq> []) (map strip (all_strings t))")
  case Nil
  then show ?thesis by (simp add: get_text_def)
next
  case (Cons p ps)
  then have "p \<in> set (filter (\<lambda>s. s \<noteq> []) (map strip (all_strings t)))"
    by simp
  then obtain x where p: "p = strip x" "strip x \<noteq> []"
    by auto
  with strip_nonblank[of x] obtain c where "c \<in> set p" "\<not> isspace_char c"
    by auto
  with join_Cons_set[of p sep ps] Cons show ?thesis
    by (auto simp: get_text_def)
qed

lemma extract_country_nonblank:
  "extract_country_from_cell cell = []
     \<or> (\<exists>c\<in>set (extract_country_from_cell cell). \<not> isspace_char c)"
  using strip_nonblank get_text_nonblank
  by (auto simp: extract_country_from_cell_def split: option.splits)

lemma cell_country_nonblank:
  "cell_country nat_cell player_cell = []
     \<or> (\<exists>c\<in>set (cell_country nat_cell player_cell). \<not> isspace_char c)"
  using extract_country_nonblank[of player_cell] get_text_nonblank
  by (auto simp: cell_country_def split: option.splits list.splits)

lemma find_Some_mem: "find P xs = Some x \<Longrightarrow> x \<in> set xs \<and> P x"
  by (induction xs) (auto split: if_splits)

lemma upper_special_nonblank:
  "list_all (\<lambda>(k, m). list_ex (\<lambda>x. \<not> isspace_char x) m) upper_special"
  by code_simp

lemma upper_rules_nonblank:
  "list_all (\<lambda>(lo, hi, step, d). list_all (\<lambda>w. \<not> (lo \<le> w - d \<and> w - d \<le> hi)) whitespace_chars)
     upper_rules"
  by code_simp

lemma upper_char_nonblank:
  assumes "\<not> isspace_char c"
  shows "\<exists>x\<in>set (upper_char c). \<not> isspace_char x"
proof (cases "c < 128")
  case True
  with assms show ?thesis
    by (auto simp: upper_char_def isspace_char_def)
next
  case False
  show ?thesis
  proof (cases "map_of upper_special c")
    case (Some m)
    then have "(c, m) \<in> set upper_special" by (rule map_of_SomeD)
    with upper_special_nonblank have "\<exists>x\<in>set m. \<not> isspace_char x"
      by (auto simp: list_all_iff list_ex_iff)
    with Some False show ?thesis by (simp add: upper_char_def case_map_def)
  next
    case None
    show ?thesis
    proof (cases "find (\<lambda>(lo, hi, step, d). lo \<le> c \<and> c \<le> hi \<and> (c - lo) mod step = 0) upper_rules")
      case None
      with \<open>map_of upper_special c = None\<close> False assms show ?thesis
        by (simp add: upper_char_def case_map_def)
    next
      case (Some rule)
      obtain lo hi step d where rule: "rule = (lo, hi, step, d)" by (cases rule)
      from find_Some_mem[OF Some] rule
      have mem: "(lo, hi, step, d) \<in> set upper_rules" and range: "lo \<le> c \<and> c \<le> hi"
        by auto
      have "\<not> isspace_char (c + d)"
      proof
        assume "isspace_char (c + d)"
        then have "c + d \<in> set whitespace_chars" by (simp add: isspace_char_list)
        moreover from mem upper_rules_nonblank
        have "\<forall>w\<in>set whitespace_chars. \<not> (lo \<le> w - d \<and> w - d \<le> hi)"
          by (fastforce simp: list_all_iff)
        ultimately have "\<not> (lo \<le> (c + d) - d \<and> (c + d) - d \<le> hi)"
          by blast
        with range show False by simp
      qed
      with Some rule \<open>map_of upper_special c = None\<close> False show ?thesis
        by (simp add: upper_char_def case_map_def)
    qed
  qed
qed

lemma upper_nonblank:
  "\<exists>c\<in>set s. \<not> isspace_char c \<Longrightarrow> \<exists>c\<in>set (upper s). \<not> isspace_char c"
  using upper_char_nonblank by (fastforce simp: upper_def)

lemma country_map_nonblank: "list_all (\<lambda>(k, v). list_ex (\<lambda>c. \<not> isspace_char c) v) country_map"
  by code_simp

lemma normalize_country_nonblank:
  assumes "country = [] \<or> (\<exists>c\<in>set country. \<not> isspace_char c)"
  shows "normalize_country country = []
     \<or> (\<exists>c\<in>set (normalize_country country). \<not> isspace_char c)"
proof (cases "country = []")
  case True
  then show ?thesis by (simp add: normalize_country_def)
next
  case False
  with assms have nb: "\<exists>c\<in>set country. \<not> isspace_char c" by simp
  show ?thesis
  proof (cases "map_of country_map country")
    case None
    with False nb upper_nonblank[OF nb] show ?thesis
      by (simp add: normalize_country_def)
  next
    case (Some code)
    then have "(country, code) \<in> set country_map" by (rule map_of_SomeD)
    with country_map_nonblank have "\<exists>c\<in>set code. \<not> isspace_char c"
      by (auto simp: list_all_iff list_ex_iff)
    with Some False show ?thesis by (simp add: normalize_country_def)
  qed
qed

lemma whitespace_not_decimal: "\<forall>w\<in>set whitespace_chars. \<not> isdecimal_char w"
  by code_simp

lemma isdecimal_not_space: "isdecimal_char c \<Longrightarrow> \<not> isspace_char c"
  using whitespace_not_decimal by (auto simp: isspace_char_list)

lemma clean_shirt_number_nonblank:
  assumes "s = [] \<or> (\<exists>c\<in>set s. \<not> isspace_char c)"
  shows "clean_shirt_number s = [] \<or> (\<exists>c\<in>set (clean_shirt_number s). \<not> isspace_char c)"
proof (cases "s \<noteq> [] \<and> \<not> isdigit (remove_char 47 (remove_char 45 s))")
  case False
  with assms show ?thesis by (auto simp: clean_shirt_number_def)
next
  case True
  let ?run = "takeWhile isdecimal_char (dropWhile (\<lambda>c. \<not> isdecimal_char c) s)"
  from True have run: "clean_shirt_number s = ?run"
    using findall_digits_first[of s] by (simp add: clean_shirt_number_def)
  show ?thesis
  proof (cases "?run = []")
    case True
    with run show ?thesis by simp
  next
    case False
    then have "hd ?run \<in> set ?run" by simp
    then have "isdecimal_char (hd ?run)" by (auto dest: set_takeWhileD)
    with \<open>hd ?run \<in> set ?run\<close> run show ?thesis
      by (auto dest: isdecimal_not_space)
  qed
qed

lemma parse_row_nonblank:
  assumes "parse_row c tm lg tr = Inr (Some r)"
  shows "(Country r \<noteq> [] \<longrightarrow> strip (Country r) \<noteq> [])
     \<and> (Shirt_Number r \<noteq> [] \<longrightarrow> strip (Shirt_Number r) \<noteq> [])"
proof -
  let ?cells = "find_all [ustr ''td'', ustr ''th''] tr"
  have "Country r = [] \<or> (\<exists>x\<in>set (Country r). \<not> isspace_char x)"
    using parse_row_Some(4)[OF assms]
      normalize_country_nonblank[OF cell_country_nonblank,
        of "lookup_cell ?cells (col_nat c)" "lookup_cell ?cells (col_player c)"]
    by simp
  moreover have "Shirt_Number r = [] \<or> (\<exists>x\<in>set (Shirt_Number r). \<not> isspace_char x)"
  proof (cases "lookup_cell ?cells (col_number c)")
    case None
    with parse_row_Some(6)[OF assms] show ?thesis by (simp add: cell_shirt_number_def)
  next
    case (Some cell)
    with parse_row_Some(6)[OF assms]
      clean_shirt_number_nonblank[OF get_text_nonblank, of "ustr '' ''" cell]
    show ?thesis by (simp add: cell_shirt_number_def)
  qed
  ultimately show ?thesis by (auto simp: strip_Nil_iff)
qed

text \<open>Every row that \<open>main\<close> collects is a record that the parser built.\<close>

lemma url_rows_parsed:
  "\<forall>r\<in>set (url_rows fetch tm lg url). \<exists>c tm' lg' tr. parse_row c tm' lg' tr = Inr (Some r)"
proof (cases "fetch url")
  case None
  then show ?thesis by (simp add: url_rows_def)
next
  case (Some soup)
  show ?thesis
  proof (cases "find_first_team_table soup")
    case None
    with Some show ?thesis by (simp add: url_rows_def)
  next
    case (Some table)
    from parse_first_team_table_total[of "Some table" tm lg]
    obtain rows where "parse_first_team_table (Some table) tm lg = Inr rows"
      and "\<forall>r\<in>set rows. \<exists>c tr. parse_row c tm lg tr = Inr (Some r)" by blast
    with Some \<open>fetch url = Some soup\<close> show ?thesis
      by (simp add: url_rows_def) blast
  qed
qed

lemma try_urls_parsed:
  assumes "try_urls fetch tm lg partial us = Inr rows"
    and "\<forall>r\<in>set partial. \<exists>c tm' lg' tr. parse_row c tm' lg' tr = Inr (Some r)"
  shows "\<forall>r\<in>set rows. \<exists>c tm' lg' tr. parse_row c tm' lg' tr = Inr (Some r)"
  using assms
proof (induction us arbitrary: partial)
  case Nil
  then show ?case by simp
next
  case (Cons url us)
  show ?case
  proof (cases "url_rows fetch tm lg url = []")
    case True
    with Cons.prems(1) have "try_urls fetch tm lg partial us = Inr rows"
      by (simp add: try_urls_step del: try_urls.simps)
    then show ?thesis using Cons.prems(2) by (rule Cons.IH)
  next
    case False
    show ?thesis
    proof (cases "length (url_rows fetch tm lg url) \<ge> MIN_PLAYER_THRESHOLD")
      case True
      with False Cons.prems(1) have "rows = url_rows fetch tm lg url"
        by (simp add: try_urls_step del: try_urls.simps)
      with url_rows_parsed[of fetch tm lg url] show ?thesis by simp
    next
      case False
      with \<open>url_rows fetch tm lg url \<noteq> []\<close> Cons.prems(1)
      have "try_urls fetch tm lg (url_rows fetch tm lg url) us = Inr rows"
        by (simp add: try_urls_step del: try_urls.simps)
      then show ?thesis using url_rows_parsed[of fetch tm lg url] by (rule Cons.IH)
    qed
  qed
qed

lemma collect_rows_parsed:
  "collect_rows fetch clubs = Inr all_rows \<Longrightarrow>
   \<forall>r\<in>set all_rows. \<exists>c tm lg tr. parse_row c tm lg tr = Inr (Some r)"
proof (induction clubs arbitrary: all_rows)
  case Nil
  then show ?case by simp
next
  case (Cons club clubs)
  from Cons.prems obtain club_rows rest where
    club: "fetch_club_squad fetch club = Inr club_rows"
    and rest: "collect_rows fetch clubs = Inr rest"
    and all: "all_rows = club_rows @ rest"
    by (auto split: sum.splits)
  from club have "\<forall>r\<in>set club_rows. \<exists>c tm lg tr. parse_row c tm lg tr = Inr (Some r)"
    using try_urls_parsed[of fetch "team club" "league club" "[]" "urls club" club_rows]
    by (simp add: fetch_club_squad_def)
  with Cons.IH[OF rest] all show ?case by auto
qed

text \<open>
  C9. \<open>fill_missing_data\<close> returns the valid rows in their order. When the rows are
  records that the parser built, then in each of them Name, Team, Position and League
  are those of the input row, the Country is unchanged when it is not empty and the
  Shirt Number is unchanged when it is not empty. The rows that \<open>main\<close> collects and hands
  to \<open>fill_missing_data\<close> are such records, whatever the pages hold.
\<close>

theorem enrichment_frame:
  "((\<forall>r\<in>set rows. \<exists>c tm lg tr. parse_row c tm lg tr = Inr (Some r)) \<longrightarrow>
      list_all2
        (\<lambda>r r'. Name r' = Name r \<and> Team r' = Team r \<and> Position r' = Position r
           \<and> League r' = League r
           \<and> (Country r \<noteq> [] \<longrightarrow> Country r' = Country r)
           \<and> (Shirt_Number r \<noteq> [] \<longrightarrow> Shirt_Number r' = Shirt_Number r))
        (filter is_valid_player_row rows) (fill_missing_data known_players wikipedia rows))
   \<and> (collect_rows fetch_soup clubs = Inr all_rows \<longrightarrow>
        (\<forall>r\<in>set all_rows. \<exists>c tm lg tr. parse_row c tm lg tr = Inr (Some r)))"
proof -
  have frame: "list_all2
        (\<lambda>r r'. Name r' = Name r \<and> Team r' = Team r \<and> Position r' = Position r
           \<and> League r' = League r
           \<and> (Country r \<noteq> [] \<longrightarrow> Country r' = Country r)
           \<and> (Shirt_Number r \<noteq> [] \<longrightarrow> Shirt_Number r' = Shirt_Number r))
        (filter is_valid_player_row rows) (fill_missing_data known_players wikipedia rows)"
    if parsed: "\<forall>r\<in>set rows. \<exists>c tm lg tr. parse_row c tm lg tr = Inr (Some r)"
    unfolding fill_missing_data_map list_all2_map2 list_all2_same
  proof
    fix r assume "r \<in> set (filter is_valid_player_row rows)"
    with parsed obtain c tm lg tr where "parse_row c tm lg tr = Inr (Some r)"
      by auto
    from parse_row_nonblank[OF this]
      fill_row_frame[of "search_player_info known_players wikipedia" r]
    show "Name (fst (fill_row (search_player_info known_players wikipedia) r)) = Name r
      \<and> Team (fst (fill_row (search_player_info known_players wikipedia) r)) = Team r
      \<and> Position (fst (fill_row (search_player_info known_players wikipedia) r)) = Position r
      \<and> League (fst (fill_row (search_player_info known_players wikipedia) r)) = League r
      \<and> (Country r \<noteq> [] \<longrightarrow>
           Country (fst (fill_row (search_player_info known_players wikipedia) r)) = Country r)
      \<and> (Shirt_Number r \<noteq> [] \<longrightarrow>
           Shirt_Number (fst (fill_row (search_player_info known_players wikipedia) r))
             = Shirt_Number r)"
      by blast
  qed
  with collect_rows_parsed[of fetch_soup clubs all_rows] show ?thesis by blast
qed

theorem enrichment_frame_witness:
  "parse_row (table_columns ex_strict_table ex_strict_header_row) (ustr ''Club'')
      (ustr ''League'') ex_porro_tr = Inr (Some ex_porro_record)
   \<and> fill_missing_data ex_known_players ex_wikipedia [ex_porro_record]
       = [ex_porro_record\<lparr>Shirt_Number := ustr ''23''\<rparr>]
   \<and> Country ex_porro_record \<noteq> []
   \<and> Country (ex_porro_record\<lparr>Shirt_Number := ustr ''23''\<rparr>) = Country ex_porro_record
   \<and> Name (ex_porro_record\<lparr>Shirt_Number := ustr ''23''\<rparr>) = Name ex_porro_record"
proof -
  have parsed: "parse_row (table_columns ex_strict_table ex_strict_header_row) (ustr ''Club'')
      (ustr ''League'') ex_porro_tr = Inr (Some ex_porro_record)"
    by code_simp
  then have rows: "\<forall>r\<in>set [ex_porro_record]. \<exists>c tm lg tr. parse_row c tm lg tr = Inr (Some r)"
    by auto
  have out: "fill_missing_data ex_known_players ex_wikipedia [ex_porro_record]
       = [ex_porro_record\<lparr>Shirt_Number := ustr ''23''\<rparr>]"
    by code_simp
  have valid: "filter is_valid_player_row [ex_porro_record] = [ex_porro_record]"
    by code_simp
  have country: "Country ex_porro_record \<noteq> []"
    by code_simp
  from enrichment_frame[of "[ex_porro_record]" ex_known_players ex_wikipedia] rows
  have "list_all2
        (\<lambda>r r'. Name r' = Name r \<and> Team r' = Team r \<and> Position r' = Position r
           \<and> League r' = League r
           \<and> (Country r \<noteq> [] \<longrightarrow> Country r' = Country r)
           \<and> (Shirt_Number r \<noteq> [] \<longrightarrow> Shirt_Number r' = Shirt_Number r))
        (filter is_valid_player_row [ex_porro_record])
        (fill_missing_data ex_known_players ex_wikipedia [ex_porro_record])"
    by blast
  then have "Name (ex_porro_record\<lparr>Shirt_Number := ustr ''23''\<rparr>) = Name ex_porro_record
      \<and> (Country ex_porro_record \<noteq> [] \<longrightarrow>
           Country (ex_porro_record\<lparr>Shirt_Number := ustr ''23''\<rparr>) = Country ex_porro_record)"
    unfolding out valid by simp
  with parsed out country show ?thesis by blast
qed

end
